theory Spec2Isabelle
  imports Complex_Main "HOL-Library.Sublist"
begin

section \<open>Strings as the program has them\<close>

text \<open>
  A JavaScript string is a list of UTF-16 code units, each a number below 65536; that is
  what \<open>length\<close>, \<open>slice\<close>, \<open>trim\<close>, \<open>split\<close> and a regular expression count.
  \<open>js\<close> writes the string of an ASCII text.
\<close>

type_synonym jstring = "nat list"

definition js :: "string \<Rightarrow> jstring" where
  "js s = map of_char s"

text \<open>
  \<open>String.prototype.trim\<close> removes white space and line terminators at both ends: the
  code points TAB, LF, VT, FF, CR, SPACE, U+00A0, U+1680, U+2000 to U+200A, U+2028, U+2029,
  U+202F, U+205F, U+3000 and U+FEFF.
\<close>

definition is_space :: "nat \<Rightarrow> bool" where
  "is_space c =
     (c \<in> set [0x0009, 0x000A, 0x000B, 0x000C, 0x000D, 0x0020, 0x00A0, 0x1680,
                0x2000, 0x2001, 0x2002, 0x2003, 0x2004, 0x2005, 0x2006, 0x2007,
                0x2008, 0x2009, 0x200A, 0x2028, 0x2029, 0x202F, 0x205F, 0x3000, 0xFEFF])"

definition trim :: "jstring \<Rightarrow> jstring" where
  "trim s = rev (dropWhile is_space (rev (dropWhile is_space s)))"

text \<open>
  \<open>s.split(sep)\<close> for a separator of one code unit: the pieces between separators; the
  empty string gives one empty piece.
\<close>

fun split_on :: "nat \<Rightarrow> jstring \<Rightarrow> jstring list" where
  "split_on sep [] = [[]]"
| "split_on sep (c # cs) =
     (if c = sep then [] # split_on sep cs
      else (case split_on sep cs of
              [] \<Rightarrow> [[c]]
            | l # ls \<Rightarrow> (c # l) # ls))"

definition split_lines :: "jstring \<Rightarrow> jstring list" where
  "split_lines s = split_on 0x0A s"

text \<open>\<open>xs.join(sep)\<close>\<close>

fun join_with :: "jstring \<Rightarrow> jstring list \<Rightarrow> jstring" where
  "join_with sep [] = []"
| "join_with sep [x] = x"
| "join_with sep (x # y # ys) = x @ sep @ join_with sep (y # ys)"

text \<open>
  \<open>s.replace(pat, rep)\<close> with a string pattern replaces the first occurrence only. (The
  replacement strings of this program contain no \<open>$\<close> pattern.)
\<close>

fun replace_first :: "jstring \<Rightarrow> jstring \<Rightarrow> jstring \<Rightarrow> jstring" where
  "replace_first pat rep [] = (if pat = [] then rep else [])"
| "replace_first pat rep (c # cs) =
     (if prefix pat (c # cs) then rep @ drop (length pat) (c # cs)
      else c # replace_first pat rep cs)"

section \<open>The regular expression of \<open>repoSlug\<close>\<close>

text \<open>
  \<open>repo.match(/(?:github\.com\/)?([^/]+\/[^/.]+?)(?:\.git)?$/)\<close> is run by a backtracking
  matcher with the priorities of ECMAScript: an optional group is tried before it is
  skipped, a greedy \<open>+\<close> takes the longest run first, a lazy \<open>+?\<close> the shortest, and the
  search starts at the leftmost position that matches. The matcher returns the text of
  capture group 1.
\<close>

datatype rx =
    Lit jstring              \<comment> \<open>literal characters\<close>
  | OptLit jstring           \<comment> \<open>\<open>(?:lit)?\<close>\<close>
  | PlusNot jstring     \<comment> \<open>\<open>[^...]+\<close>, greedy\<close>
  | StarNot jstring     \<comment> \<open>the rest of a greedy run\<close>
  | PlusNotLazy jstring \<comment> \<open>\<open>[^...]+?\<close>, lazy\<close>
  | StarNotLazy jstring \<comment> \<open>the rest of a lazy run\<close>
  | GroupOpen               \<comment> \<open>\<open>(\<close> of group 1\<close>
  | GroupClose              \<comment> \<open>\<open>)\<close> of group 1\<close>
  | AtEnd                   \<comment> \<open>\<open>$\<close>\<close>

text \<open>
  \<open>rx_match items s opn cap\<close>: \<open>s\<close> is the input still to read, \<open>opn\<close> the input as it
  was where group 1 opened, \<open>cap\<close> the text of group 1.
\<close>

fun rx_match :: "rx list \<Rightarrow> jstring \<Rightarrow> jstring \<Rightarrow> jstring \<Rightarrow> jstring option" where
  "rx_match [] s opn cap = Some cap"
| "rx_match (Lit l # r) s opn cap =
     (if prefix l s then rx_match r (drop (length l) s) opn cap else None)"
| "rx_match (OptLit l # r) s opn cap =
     (if prefix l s
      then (case rx_match r (drop (length l) s) opn cap of
              Some c \<Rightarrow> Some c
            | None \<Rightarrow> rx_match r s opn cap)
      else rx_match r s opn cap)"
| "rx_match (PlusNot cs # r) [] opn cap = None"
| "rx_match (PlusNot cs # r) (x # xs) opn cap =
     (if x \<in> set cs then None else rx_match (StarNot cs # r) xs opn cap)"
| "rx_match (StarNot cs # r) [] opn cap = rx_match r [] opn cap"
| "rx_match (StarNot cs # r) (x # xs) opn cap =
     (if x \<in> set cs then rx_match r (x # xs) opn cap
      else (case rx_match (StarNot cs # r) xs opn cap of
              Some c \<Rightarrow> Some c
            | None \<Rightarrow> rx_match r (x # xs) opn cap))"
| "rx_match (PlusNotLazy cs # r) [] opn cap = None"
| "rx_match (PlusNotLazy cs # r) (x # xs) opn cap =
     (if x \<in> set cs then None else rx_match (StarNotLazy cs # r) xs opn cap)"
| "rx_match (StarNotLazy cs # r) [] opn cap = rx_match r [] opn cap"
| "rx_match (StarNotLazy cs # r) (x # xs) opn cap =
     (case rx_match r (x # xs) opn cap of
        Some c \<Rightarrow> Some c
      | None \<Rightarrow> (if x \<in> set cs then None else rx_match (StarNotLazy cs # r) xs opn cap))"
| "rx_match (GroupOpen # r) s opn cap = rx_match r s s cap"
| "rx_match (GroupClose # r) s opn cap = rx_match r s opn (take (length opn - length s) opn)"
| "rx_match (AtEnd # r) s opn cap = (if s = [] then rx_match r s opn cap else None)"

text \<open>The search tries every start position from the left, the end of the input included.\<close>

fun rx_search :: "rx list \<Rightarrow> jstring \<Rightarrow> jstring option" where
  "rx_search items [] = rx_match items [] [] []"
| "rx_search items (x # xs) =
     (case rx_match items (x # xs) [] [] of
        Some c \<Rightarrow> Some c
      | None \<Rightarrow> rx_search items xs)"

definition repo_rx :: "rx list" where
  "repo_rx = [OptLit (js ''github.com/''), GroupOpen, PlusNot (js ''/''), Lit (js ''/''),
              PlusNotLazy (js ''/.''), GroupClose, OptLit (js ''.git''), AtEnd]"

section \<open>Repo slug\<close>

text \<open>A thrown \<open>Error\<close> is \<open>Inl\<close> of its message.\<close>

definition repoSlug :: "jstring \<Rightarrow> jstring + jstring" where
  "repoSlug repo =
     (case rx_search repo_rx repo of
        None \<Rightarrow> Inl (js ''Invalid repository: '' @ repo)
      | Some m \<Rightarrow> Inr (replace_first (js ''/'') (js ''--'') m))"

section \<open>JSON values\<close>

text \<open>
  The transports hand the orchestrator parsed JSON under a type cast, so a field of a request
  is whatever the caller sent. A value of \<open>json option\<close> is a JavaScript value, \<open>None\<close>
  being \<open>undefined\<close>. An object is the list of its entries, its keys distinct; a number
  is an integer.
\<close>

datatype json =
    JNull
  | JBool bool
  | JNum int
  | JStr jstring
  | JArr "json list"
  | JObj "(jstring \<times> json) list"

text \<open>\<open>v.k\<close> for a value that is neither \<open>null\<close> nor \<open>undefined\<close>.\<close>

fun field_of :: "json \<Rightarrow> jstring \<Rightarrow> json option" where
  "field_of (JObj kvs) k = map_of kvs k"
| "field_of v k = None"

text \<open>\<open>v?.k\<close>\<close>

fun opt_prop :: "json option \<Rightarrow> jstring \<Rightarrow> json option" where
  "opt_prop None k = None"
| "opt_prop (Some JNull) k = None"
| "opt_prop (Some v) k = field_of v k"

text \<open>The truth value of a JavaScript value in a condition.\<close>

fun truthy :: "json \<Rightarrow> bool" where
  "truthy JNull = False"
| "truthy (JBool b) = b"
| "truthy (JNum n) = (n \<noteq> 0)"
| "truthy (JStr s) = (s \<noteq> [])"
| "truthy (JArr xs) = True"
| "truthy (JObj kvs) = True"

definition truthy_opt :: "json option \<Rightarrow> bool" where
  "truthy_opt v = (case v of None \<Rightarrow> False | Some x \<Rightarrow> truthy x)"

text \<open>\<open>a ?? b\<close>\<close>

definition nullish_or :: "json option \<Rightarrow> json \<Rightarrow> json" where
  "nullish_or a b = (case a of None \<Rightarrow> b | Some JNull \<Rightarrow> b | Some v \<Rightarrow> v)"

subsection \<open>Numbers and values as text\<close>

definition digit_char :: "nat \<Rightarrow> nat" where
  "digit_char d = js ''0123456789abcdefghijklmnopqrstuvwxyz'' ! d"

text \<open>\<open>n.toString(36)\<close> and \<open>String(n)\<close> for a natural number.\<close>

function toString36 :: "nat \<Rightarrow> jstring" where
  "toString36 n =
     (if n < 36 then [digit_char n] else toString36 (n div 36) @ [digit_char (n mod 36)])"
  by pat_completeness auto
termination
  by (relation "measure (\<lambda>n. n)") auto

function show_nat :: "nat \<Rightarrow> jstring" where
  "show_nat n =
     (if n < 10 then [digit_char n] else show_nat (n div 10) @ [digit_char (n mod 10)])"
  by pat_completeness auto
termination
  by (relation "measure (\<lambda>n. n)") auto

declare toString36.simps [simp del] show_nat.simps [simp del]

definition show_int :: "int \<Rightarrow> jstring" where
  "show_int i = (if i < 0 then js ''-'' @ show_nat (nat (- i)) else show_nat (nat i))"

text \<open>
  A value inside a template literal. In the elements of an array \<open>null\<close> is the empty
  text.
\<close>

fun js_string :: "json \<Rightarrow> jstring" where
  "js_string JNull = js ''null''"
| "js_string (JBool b) = (if b then js ''true'' else js ''false'')"
| "js_string (JNum n) = show_int n"
| "js_string (JStr s) = s"
| "js_string (JArr xs) =
     join_with (js '','') (map (\<lambda>x. if x = JNull then [] else js_string x) xs)"
| "js_string (JObj kvs) = js ''[object Object]''"

definition js_string_opt :: "json option \<Rightarrow> jstring" where
  "js_string_opt v = (case v of None \<Rightarrow> js ''undefined'' | Some x \<Rightarrow> js_string x)"

section \<open>The world outside the process\<close>

text \<open>
  What the file system, git, the clock and the provider answer is a parameter of every
  function below. Each answer is keyed by what is asked (the command line and its
  directory, the path, the place in the code that reads the clock), so a world fixes the
  outcome of every call of a run. A function that can throw returns \<open>Inl\<close> of the
  message, or \<open>Some\<close> of it when it returns nothing.
\<close>

datatype proc =
    SpawnError jstring           \<comment> \<open>the child process could not be run\<close>
  | Exit nat jstring jstring     \<comment> \<open>exit code, standard output, standard error\<close>

datatype clock_site = AtStart | AtWorktree | AtDone | AtErrorPayload

datatype status = Success | Error

record usage =
  totalCostUsd :: real
  inputTokens :: int
  outputTokens :: int
  numTurns :: int

record ProviderResult =
  pr_status :: status
  pr_output :: "jstring option"
  pr_error :: "jstring option"
  pr_usage :: usage

record ProviderContext =
  ctx_cwd :: jstring
  ctx_prompt :: jstring
  ctx_agent :: json
  ctx_mcpServers :: json
  ctx_executionId :: jstring
  ctx_memoryUserId :: "jstring option"

text \<open>
  A message of the agent SDK's stream as the provider reads it: a message of type
  \<open>result\<close> with the fields the provider looks at (absent when \<open>None\<close>), or any other
  message.
\<close>

record result_message =
  total_cost_usd :: "real option"
  input_tokens :: "int option"
  output_tokens :: "int option"
  num_turns :: "int option"
  structured_output :: "json option"
  result_field :: "json option"

datatype sdk_message = ResultMessage result_message | OtherMessage

text \<open>
  How \<open>Promise.race([providerPromise, timeoutPromise])\<close> settles: the provider reads the
  stream of the SDK to its end before the timer fires, the provider throws before the timer
  fires, or the timer fires first.
\<close>

datatype race = Completed "sdk_message list" | Threw jstring | TimedOut

text \<open>
  Two functions of the JavaScript library are parameters as well: \<open>json_stringify\<close> is
  \<open>JSON.stringify\<close>, and \<open>round_minutes t\<close> is the text of
  \<open>Math.round(t / 60_000)\<close> for a value \<open>t\<close> that is not a number.
\<close>

record world =
  process_cwd :: jstring
  tmpdir :: jstring
  date_now :: "clock_site \<Rightarrow> nat"
  run :: "jstring \<Rightarrow> jstring option \<Rightarrow> proc"
  existsSync :: "jstring \<Rightarrow> bool"
  mkdirSync :: "jstring \<Rightarrow> jstring option"
  mkdtempSync :: "jstring \<Rightarrow> jstring + jstring"
  readdirSync :: "jstring \<Rightarrow> jstring + jstring list"
  cpSync :: "jstring \<Rightarrow> jstring \<Rightarrow> jstring option"
  writeFileSync :: "jstring \<Rightarrow> json \<Rightarrow> jstring option"
  rmSync :: "jstring \<Rightarrow> jstring option"
  read_json :: "jstring \<Rightarrow> jstring + json"
  json_stringify :: "json \<Rightarrow> jstring"
  round_minutes :: "json \<Rightarrow> jstring"
  provider_race :: "jstring \<Rightarrow> ProviderContext \<Rightarrow> json \<Rightarrow> race"

record BridgeConfig =
  reposDir :: jstring
  worktreesDir :: jstring
  overlaysDir :: jstring
  timeout :: int
  defaultProvider :: jstring

text \<open>
  \<open>exec(cmd, {cwd})\<close>, promisified: it resolves with the standard output when the command
  exits with code 0 and rejects otherwise, with node's message: the command line, a line
  feed and the standard error.
\<close>

definition exec :: "world \<Rightarrow> jstring \<Rightarrow> jstring option \<Rightarrow> jstring + jstring" where
  "exec w cmd dir =
     (case run w cmd dir of
        SpawnError e \<Rightarrow> Inl e
      | Exit code out err \<Rightarrow>
          if code = 0 then Inr out else Inl (js ''Command failed: '' @ cmd @ [0x0A] @ err))"

text \<open>
  \<open>exec(`cmd 2>/dev/null || echo ""`, {cwd})\<close>: the shell drops the standard error and
  runs \<open>echo\<close> when the command fails, which adds an empty line to what was printed and
  exits with code 0.
\<close>

definition exec_or_echo :: "world \<Rightarrow> jstring \<Rightarrow> jstring option \<Rightarrow> jstring + jstring" where
  "exec_or_echo w cmd dir =
     (case run w cmd dir of
        SpawnError e \<Rightarrow> Inl e
      | Exit code out err \<Rightarrow> if code = 0 then Inr out else Inr (out @ [0x0A]))"

subsection \<open>Paths\<close>

text \<open>
  \<open>normalize\<close> (here \<open>path_normalize\<close>), \<open>join\<close> and \<open>dirname\<close> of
  \<open>node:path\<close> on POSIX. \<open>norm_step\<close> is one
  step of node's \<open>normalizeString\<close> on the stack of segments kept so far, the last one
  first: an empty segment and \<open>.\<close> are dropped, \<open>..\<close> removes the segment before it
  or, when there is none and the path is relative, stays.
\<close>

definition norm_step :: "bool \<Rightarrow> jstring list \<Rightarrow> jstring \<Rightarrow> jstring list" where
  "norm_step allowAboveRoot st seg =
     (if seg = [] \<or> seg = js ''.'' then st
      else if seg = js ''..''
      then (case st of
              [] \<Rightarrow> if allowAboveRoot then [seg] else []
            | lastSegment # rest \<Rightarrow>
                if lastSegment \<noteq> js ''..'' then rest
                else if allowAboveRoot then seg # st else st)
      else seg # st)"

definition normalizeString :: "jstring \<Rightarrow> bool \<Rightarrow> jstring" where
  "normalizeString path allowAboveRoot =
     join_with (js ''/'') (rev (foldl (norm_step allowAboveRoot) [] (split_on 0x2F path)))"

definition path_normalize :: "jstring \<Rightarrow> jstring" where
  "path_normalize path =
     (if path = [] then js ''.''
      else (let isAbsolute = (hd path = 0x2F);
                trailingSeparator = (last path = 0x2F);
                p = normalizeString path (\<not> isAbsolute)
            in if p = []
               then (if isAbsolute then js ''/''
                     else if trailingSeparator then js ''./'' else js ''.'')
               else (if isAbsolute then js ''/'' else [])
                    @ p @ (if trailingSeparator then js ''/'' else [])))"

definition join :: "jstring \<Rightarrow> jstring \<Rightarrow> jstring" where
  "join a b =
     (if a = [] \<and> b = [] then js ''.''
      else if a = [] then path_normalize b
      else if b = [] then path_normalize a
      else path_normalize (a @ js ''/'' @ b))"

text \<open>
  \<open>dirname\<close> looks from the end, below index 1, past the separators that end the path
  and past the last component, for the separator before it.
\<close>

definition dirname :: "jstring \<Rightarrow> jstring" where
  "dirname path =
     (if path = [] then js ''.''
      else (let found = dropWhile (\<lambda>c. c \<noteq> 0x2F)
                          (dropWhile (\<lambda>c. c = 0x2F) (rev (tl path)))
            in if found = [] then (if hd path = 0x2F then js ''/'' else js ''.'')
               else if hd path = 0x2F \<and> length found = 1 then js ''//''
               else hd path # rev (tl found)))"

text \<open>\<open>s.includes(pat)\<close>\<close>

fun str_includes :: "jstring \<Rightarrow> jstring \<Rightarrow> bool" where
  "str_includes pat [] = (pat = [])"
| "str_includes pat (c # cs) = (prefix pat (c # cs) \<or> str_includes pat cs)"

text \<open>\<open>try { body } catch { handler }\<close>\<close>

definition try_catch :: "'e + 'a \<Rightarrow> ('e \<Rightarrow> 'e + 'a) \<Rightarrow> 'e + 'a" where
  "try_catch body handler = (case body of Inl e \<Rightarrow> handler e | Inr v \<Rightarrow> Inr v)"

section \<open>Workspaces\<close>

text \<open>
  The disposal closure of a workspace is the data it closes over; \<open>run_cleanup\<close> is its
  body.
\<close>

datatype cleanup_action =
    CleanupNone                       \<comment> \<open>\<open>async () => {}\<close>\<close>
  | CleanupWorktree jstring jstring     \<comment> \<open>bare path and worktree path\<close>
  | CleanupTempdir jstring

record WorkspaceResult =
  cwd :: jstring
  cleanup :: cleanup_action

definition run_cleanup :: "world \<Rightarrow> cleanup_action \<Rightarrow> jstring option" where
  "run_cleanup w c =
     (case c of
        CleanupNone \<Rightarrow> None
      | CleanupWorktree barePath worktreePath \<Rightarrow>
          (case exec w (js ''git worktree remove --force '' @ worktreePath) (Some barePath) of
             Inr _ \<Rightarrow> None
           | Inl _ \<Rightarrow>
               (case rmSync w worktreePath of
                  Some e \<Rightarrow> Some e
                | None \<Rightarrow>
                    (case exec w (js ''git worktree prune'') (Some barePath) of
                       Inl e \<Rightarrow> Some e
                     | Inr _ \<Rightarrow> None)))
      | CleanupTempdir dir \<Rightarrow> rmSync w dir)"

text \<open>\<open>repo.match\<close> on a value that is not a string throws a \<open>TypeError\<close>.\<close>

definition match_type_error :: "json option \<Rightarrow> jstring" where
  "match_type_error repo =
     (case repo of
        None \<Rightarrow> js ''Cannot read properties of undefined (reading '' @ [0x27] @ js ''match'' @ [0x27] @ js '')''
      | Some JNull \<Rightarrow> js ''Cannot read properties of null (reading '' @ [0x27] @ js ''match'' @ [0x27] @ js '')''
      | Some _ \<Rightarrow> js ''repo.match is not a function'')"

definition ensureBareClone :: "world \<Rightarrow> json option \<Rightarrow> jstring \<Rightarrow> jstring + jstring" where
  "ensureBareClone w repo reposDir0 =
     (case repo of
        Some (JStr r) \<Rightarrow>
          (case repoSlug r of
             Inl e \<Rightarrow> Inl e
           | Inr slug \<Rightarrow>
               (let barePath = join reposDir0 (slug @ js ''.git'') in
                case mkdirSync w reposDir0 of
                  Some e \<Rightarrow> Inl e
                | None \<Rightarrow>
                    (let repoUrl = (if str_includes (js ''github.com'') r then r
                                    else js ''https://github.com/'' @ r @ js ''.git'') in
                     if existsSync w barePath
                     then (case exec w (js ''git fetch origin '' @ [0x27]
                                        @ js ''+refs/heads/*:refs/heads/*'' @ [0x27]
                                        @ js '' --prune'') (Some barePath) of
                             Inl e \<Rightarrow> Inl e
                           | Inr _ \<Rightarrow> Inr barePath)
                     else (case exec w (js ''git clone --bare '' @ repoUrl @ js '' '' @ barePath) None of
                             Inl e \<Rightarrow> Inl e
                           | Inr _ \<Rightarrow> Inr barePath))))
      | _ \<Rightarrow> Inl (match_type_error repo))"

text \<open>
  \<open>createWorktree\<close> returns the lines it writes with \<open>console.log\<close> next to its result.
  The parameter \<open>branch\<close> defaults to \<open>"main"\<close> when the argument is \<open>undefined\<close>.
\<close>

definition worktree_add :: "jstring \<Rightarrow> jstring \<Rightarrow> jstring" where
  "worktree_add worktreePath ref = js ''git worktree add --detach '' @ worktreePath @ js '' '' @ ref"

text \<open>\<open>join(worktreesDir, `wt-${Date.now().toString(36)}`)\<close>\<close>

definition worktree_path :: "world \<Rightarrow> jstring \<Rightarrow> jstring" where
  "worktree_path w worktreesDir0 =
     join worktreesDir0 (js ''wt-'' @ toString36 (date_now w AtWorktree))"

definition creating_log :: "jstring \<Rightarrow> jstring \<Rightarrow> jstring" where
  "creating_log worktreePath branch =
     (js ''[Workspace] Creating worktree at '') @ worktreePath @ js '' (branch: '' @ branch @ js '')...''"

definition fallback_log :: "jstring \<Rightarrow> jstring" where
  "fallback_log branch =
     (js ''[Workspace] Branch '') @ [0x22] @ branch @ [0x22]
       @ js '' not found, creating from main (detached)...''"

definition createWorktree ::
  "world \<Rightarrow> jstring \<Rightarrow> jstring \<Rightarrow> json option
     \<Rightarrow> jstring list \<times> (jstring + jstring \<times> cleanup_action)" where
  "createWorktree w barePath worktreesDir0 branch_arg =
     (let branch = (case branch_arg of None \<Rightarrow> js ''main'' | Some b \<Rightarrow> js_string b);
          worktreePath = worktree_path w worktreesDir0
      in case mkdirSync w worktreesDir0 of
           Some e \<Rightarrow> ([], Inl e)
         | None \<Rightarrow>
             (case exec w (js ''git worktree prune'') (Some barePath) of
                Inl e \<Rightarrow> ([creating_log worktreePath branch], Inl e)
              | Inr _ \<Rightarrow>
                  (case exec w (worktree_add worktreePath branch) (Some barePath) of
                     Inr _ \<Rightarrow>
                       ([creating_log worktreePath branch],
                        Inr (worktreePath, CleanupWorktree barePath worktreePath))
                   | Inl _ \<Rightarrow>
                       (case exec w (worktree_add worktreePath (js ''main'')) (Some barePath) of
                          Inl e \<Rightarrow>
                            ([creating_log worktreePath branch, fallback_log branch], Inl e)
                        | Inr _ \<Rightarrow>
                            ([creating_log worktreePath branch, fallback_log branch],
                             Inr (worktreePath, CleanupWorktree barePath worktreePath))))))"

fun copy_entries :: "world \<Rightarrow> jstring \<Rightarrow> jstring \<Rightarrow> jstring list \<Rightarrow> jstring option" where
  "copy_entries w overlayDir worktreePath [] = None"
| "copy_entries w overlayDir worktreePath (entry # es) =
     (case cpSync w (join overlayDir entry) (join worktreePath entry) of
        Some e \<Rightarrow> Some e
      | None \<Rightarrow> copy_entries w overlayDir worktreePath es)"

definition injectOverlays :: "world \<Rightarrow> jstring \<Rightarrow> jstring \<Rightarrow> jstring \<Rightarrow> jstring option" where
  "injectOverlays w worktreePath repo overlaysDir0 =
     (case repoSlug repo of
        Inl e \<Rightarrow> Some e
      | Inr slug \<Rightarrow>
          (let overlayDir = join overlaysDir0 slug in
           if \<not> existsSync w overlayDir then None
           else (case readdirSync w overlayDir of
                   Inl e \<Rightarrow> Some e
                 | Inr entries \<Rightarrow> copy_entries w overlayDir worktreePath entries)))"

text \<open>\<open>Object.entries\<close> of a value: the entries of an object, the indexed elements of an
  array or of a string, nothing for the rest.\<close>

definition object_entries :: "json \<Rightarrow> (jstring \<times> json) list" where
  "object_entries v =
     (case v of
        JObj kvs \<Rightarrow> kvs
      | JArr xs \<Rightarrow> zip (map show_nat [0..<length xs]) xs
      | JStr s \<Rightarrow> zip (map show_nat [0..<length s]) (map (\<lambda>c. JStr [c]) s)
      | _ \<Rightarrow> [])"

fun seed_files :: "world \<Rightarrow> jstring \<Rightarrow> (jstring \<times> json) list \<Rightarrow> jstring option" where
  "seed_files w dir [] = None"
| "seed_files w dir ((filePath, content) # rest) =
     (let fullPath = join dir filePath in
      case mkdirSync w (dirname fullPath) of
        Some e \<Rightarrow> Some e
      | None \<Rightarrow>
          (case writeFileSync w fullPath content of
             Some e \<Rightarrow> Some e
           | None \<Rightarrow> seed_files w dir rest))"

definition setup_git :: "world \<Rightarrow> json \<Rightarrow> BridgeConfig \<Rightarrow> jstring + WorkspaceResult" where
  "setup_git w workspace config =
     (case ensureBareClone w (field_of workspace (js ''repo'')) (reposDir config) of
        Inl e \<Rightarrow> Inl e
      | Inr barePath \<Rightarrow>
          (case snd (createWorktree w barePath (worktreesDir config)
                       (field_of workspace (js ''branch''))) of
             Inl e \<Rightarrow> Inl e
           | Inr (worktreePath, cl) \<Rightarrow>
               (case (if field_of workspace (js ''overlays'') \<noteq> Some (JBool False)
                      then injectOverlays w worktreePath
                             (js_string_opt (field_of workspace (js ''repo''))) (overlaysDir config)
                      else None) of
                  Some e \<Rightarrow> Inl e
                | None \<Rightarrow>
                    (case exec w (js ''git config user.name '' @ [0x22] @ js ''Agent Bridge''
                                  @ [0x22]) (Some worktreePath) of
                       Inl e \<Rightarrow> Inl e
                     | Inr _ \<Rightarrow>
                         (case exec w (js ''git config user.email '' @ [0x22]
                                       @ js ''bridge@agent-bridge.local'' @ [0x22])
                                 (Some worktreePath) of
                            Inl e \<Rightarrow> Inl e
                          | Inr _ \<Rightarrow> Inr \<lparr>cwd = worktreePath, cleanup = cl\<rparr>)))))"

definition setup_tempdir :: "world \<Rightarrow> json \<Rightarrow> jstring + WorkspaceResult" where
  "setup_tempdir w workspace =
     (case mkdtempSync w (join (tmpdir w) (js ''bridge-'')) of
        Inl e \<Rightarrow> Inl e
      | Inr dir \<Rightarrow>
          (case (case field_of workspace (js ''seedFiles'') of
                   None \<Rightarrow> None
                 | Some seedFiles \<Rightarrow>
                     if truthy seedFiles then seed_files w dir (object_entries seedFiles)
                     else None) of
             Some e \<Rightarrow> Inl e
           | None \<Rightarrow> Inr \<lparr>cwd = dir, cleanup = CleanupTempdir dir\<rparr>))"

definition setupWorkspace ::
  "world \<Rightarrow> json option \<Rightarrow> BridgeConfig \<Rightarrow> jstring + WorkspaceResult" where
  "setupWorkspace w workspace config =
     (case workspace of
        None \<Rightarrow> Inr \<lparr>cwd = process_cwd w, cleanup = CleanupNone\<rparr>
      | Some ws \<Rightarrow>
          if \<not> truthy ws then Inr \<lparr>cwd = process_cwd w, cleanup = CleanupNone\<rparr>
          else if field_of ws (js ''type'') = Some (JStr (js ''git'')) then setup_git w ws config
          else if field_of ws (js ''type'') = Some (JStr (js ''tempdir'')) then setup_tempdir w ws
          else Inl (js ''Unsupported workspace type: '' @ js_string_opt (field_of ws (js ''type''))))"

text \<open>
  \<open>loadMcpServers\<close>: the world's \<open>read_json\<close> is \<open>JSON.parse(readFileSync(path, "utf-8"))\<close>,
  which throws when the file cannot be read or is not JSON.
\<close>

definition loadMcpServers :: "world \<Rightarrow> jstring \<Rightarrow> jstring + json" where
  "loadMcpServers w dir =
     (let mcpPath = join dir (js ''.mcp.json'') in
      if \<not> existsSync w mcpPath then Inr (JObj [])
      else (case read_json w mcpPath of
              Inl e \<Rightarrow> Inl e
            | Inr JNull \<Rightarrow>
                Inl (js ''Cannot read properties of null (reading '' @ [0x27]
                     @ js ''mcpServers'' @ [0x27] @ js '')'')
            | Inr raw \<Rightarrow> Inr (nullish_or (field_of raw (js ''mcpServers'')) (JObj []))))"

subsection \<open>Push verification\<close>

record push_check =
  pushed :: bool
  unpushedCommits :: "jstring list"

text \<open>
  The two command lines, and \<open>logOutput.trim().split("\n").filter(Boolean)\<close>: the
  non-empty lines of the trimmed output.
\<close>

definition log_command :: "jstring \<Rightarrow> jstring" where
  "log_command branch = js ''git log --oneline origin/'' @ branch @ js ''..HEAD''"

definition ls_remote_command :: "jstring \<Rightarrow> jstring" where
  "ls_remote_command branch = js ''git ls-remote --heads origin '' @ branch"

definition output_lines :: "jstring \<Rightarrow> jstring list" where
  "output_lines out = filter (\<lambda>l. l \<noteq> []) (split_lines (trim out))"

definition verifyGitPush_try :: "world \<Rightarrow> jstring \<Rightarrow> jstring \<Rightarrow> jstring + push_check" where
  "verifyGitPush_try w dir branch =
     (case exec_or_echo w (log_command branch) (Some dir) of
        Inl e \<Rightarrow> Inl e
      | Inr logOutput \<Rightarrow>
          (let unpushed = output_lines logOutput in
           if length unpushed > 0
           then Inr \<lparr>pushed = False, unpushedCommits = unpushed\<rparr>
           else (case exec w (ls_remote_command branch) (Some dir) of
                   Inl e \<Rightarrow> Inl e
                 | Inr remoteRef \<Rightarrow>
                     if trim remoteRef = []
                     then Inr \<lparr>pushed = False, unpushedCommits = [js ''(branch not on remote)'']\<rparr>
                     else Inr \<lparr>pushed = True, unpushedCommits = []\<rparr>)))"

definition verifyGitPush :: "world \<Rightarrow> jstring \<Rightarrow> jstring \<Rightarrow> jstring + push_check" where
  "verifyGitPush w dir branch =
     try_catch (verifyGitPush_try w dir branch)
       (\<lambda>err. Inr \<lparr>pushed = False, unpushedCommits = [js ''(verification error)'']\<rparr>)"

section \<open>The orchestrator\<close>

record ExecutionRequest =
  req_id :: jstring
  req_prompt :: jstring
  req_callbackUrl :: "jstring option"
  req_workspace :: "json option"
  req_agent :: "json option"
  req_metadata :: "json option"

record CallbackPayload =
  cb_id :: jstring
  cb_status :: status
  cb_durationMs :: int
  cb_totalCostUsd :: real
  cb_inputTokens :: int
  cb_outputTokens :: int
  cb_numTurns :: int
  cb_result :: "jstring option"
  cb_error :: "jstring option"
  cb_metadata :: "json option"

text \<open>
  What one run of \<open>executeRequest\<close> does to its collaborators, in order: the calls of
  \<open>setupWorkspace\<close>, \<open>provider.run\<close>, \<open>verifyGitPush\<close> and \<open>sendCallback\<close>, and the
  call of the disposal closure. \<open>sendCallback\<close> catches whatever goes wrong inside it, so
  to the orchestrator it is only this event.
\<close>

datatype event =
    SetupWorkspaceCalled "json option"
  | ProviderRun jstring ProviderContext
  | VerifyGitPushCalled jstring jstring
  | CallbackSent jstring CallbackPayload
  | CleanupInvoked cleanup_action

definition buildErrorPayload ::
  "world \<Rightarrow> ExecutionRequest \<Rightarrow> jstring \<Rightarrow> nat \<Rightarrow> CallbackPayload" where
  "buildErrorPayload w request err startMs =
     \<lparr>cb_id = req_id request,
      cb_status = Error,
      cb_durationMs = int (date_now w AtErrorPayload) - int startMs,
      cb_totalCostUsd = 0,
      cb_inputTokens = 0,
      cb_outputTokens = 0,
      cb_numTurns = 0,
      cb_result = None,
      cb_error = Some err,
      cb_metadata = req_metadata request\<rparr>"

text \<open>\<open>if (request.callbackUrl) await sendCallback(request.callbackUrl, payload)\<close>\<close>

definition deliver :: "ExecutionRequest \<Rightarrow> CallbackPayload \<Rightarrow> event list" where
  "deliver request payload =
     (case req_callbackUrl request of
        None \<Rightarrow> []
      | Some url \<Rightarrow> if url = [] then [] else [CallbackSent url payload])"

text \<open>
  The registry after \<open>initProviders\<close>, which the process calls before it starts a
  transport: the one provider \<open>claude-code\<close>. \<open>getProvider\<close> returns the name of the
  provider it finds.
\<close>

definition initProviders :: "jstring list" where
  "initProviders = [js ''claude-code'']"

definition getProvider :: "json \<Rightarrow> jstring + jstring" where
  "getProvider name =
     (let unknown = js ''Unknown provider '' @ [0x22] @ js_string name @ [0x22]
                      @ js ''. Available: '' @ join_with (js '', '') initProviders
      in case name of
           JStr n \<Rightarrow> if n \<in> set initProviders then Inr n else Inl unknown
         | _ \<Rightarrow> Inl unknown)"

text \<open>
  \<open>ClaudeCodeProvider.run\<close>, from the stream it reads: the result starts as a success
  with no output and zero usage, and every message of type \<open>result\<close> replaces it by a
  success with the usage of the message (a missing counter is zero) and, as output, the
  structured output as JSON if there is one, else the result text if it is a non-empty
  string.
\<close>

definition initial_result :: ProviderResult where
  "initial_result =
     \<lparr>pr_status = Success, pr_output = None, pr_error = None,
      pr_usage = \<lparr>totalCostUsd = 0, inputTokens = 0, outputTokens = 0, numTurns = 0\<rparr>\<rparr>"

definition on_message :: "world \<Rightarrow> ProviderResult \<Rightarrow> sdk_message \<Rightarrow> ProviderResult" where
  "on_message w result message =
     (case message of
        OtherMessage \<Rightarrow> result
      | ResultMessage r \<Rightarrow>
          \<lparr>pr_status = Success,
           pr_output =
             (let from_result = (case result_field r of
                                   Some (JStr text) \<Rightarrow> if text \<noteq> [] then Some text else None
                                 | _ \<Rightarrow> None)
              in case structured_output r of
                   None \<Rightarrow> from_result
                 | Some so \<Rightarrow> if truthy so then Some (json_stringify w so) else from_result),
           pr_error = None,
           pr_usage =
             \<lparr>totalCostUsd = (case total_cost_usd r of None \<Rightarrow> 0 | Some c \<Rightarrow> c),
              inputTokens = (case input_tokens r of None \<Rightarrow> 0 | Some n \<Rightarrow> n),
              outputTokens = (case output_tokens r of None \<Rightarrow> 0 | Some n \<Rightarrow> n),
              numTurns = (case num_turns r of None \<Rightarrow> 0 | Some n \<Rightarrow> n)\<rparr>\<rparr>)"

definition ClaudeCodeProvider_run :: "world \<Rightarrow> sdk_message list \<Rightarrow> ProviderResult" where
  "ClaudeCodeProvider_run w messages = foldl (on_message w) initial_result messages"

text \<open>\<open>{...a, ...b}\<close>: the entries of \<open>a\<close> with the values \<open>b\<close> gives them, then the rest of \<open>b\<close>.\<close>

definition spread_merge :: "json \<Rightarrow> json \<Rightarrow> json" where
  "spread_merge a b =
     (let ea = object_entries a; eb = object_entries b in
      JObj (map (\<lambda>(k, v). (k, case map_of eb k of Some v' \<Rightarrow> v' | None \<Rightarrow> v)) ea
            @ filter (\<lambda>(k, v). map_of ea k = None) eb))"

text \<open>
  The message of the timer. \<open>Math.round(timeout / 60_000)\<close> of a number rounds half up;
  for a timeout that is not a number its text is a parameter of the world.
\<close>

definition timeout_message :: "world \<Rightarrow> json \<Rightarrow> jstring \<Rightarrow> jstring" where
  "timeout_message w t ident =
     js ''Bridge timeout: agent exceeded '' @ js_string t @ js ''ms (''
       @ (case t of JNum n \<Rightarrow> show_int ((n + 30000) div 60000) | _ \<Rightarrow> round_minutes w t)
       @ js ''min) for request '' @ ident"

text \<open>The branch whose push is to be verified, if the request asks for the verification.\<close>

definition gitWorkspace :: "ExecutionRequest \<Rightarrow> json option" where
  "gitWorkspace request =
     (if opt_prop (req_workspace request) (js ''type'') = Some (JStr (js ''git''))
      then req_workspace request else None)"

definition wants_push_check :: "ExecutionRequest \<Rightarrow> bool" where
  "wants_push_check request =
     (truthy_opt (gitWorkspace request) \<and>
      truthy_opt (opt_prop (gitWorkspace request) (js ''branch'')) \<and>
      opt_prop (gitWorkspace request) (js ''branch'') \<noteq> Some (JStr (js ''main'')) \<and>
      opt_prop (req_metadata request) (js ''expectBranchPush'') = Some (JBool True))"

definition push_error_text :: "jstring \<Rightarrow> jstring list \<Rightarrow> jstring" where
  "push_error_text branch commits =
     (js ''Git push verification failed: branch '') @ [0x22] @ branch @ [0x22]
       @ js '' has unpushed changes: '' @ join_with (js '', '') commits"

text \<open>
  The part of the \<open>try\<close> block after the race: push verification and the callback. It
  returns its events and the error it throws, if any.
\<close>

definition after_provider ::
  "world \<Rightarrow> ExecutionRequest \<Rightarrow> jstring \<Rightarrow> nat \<Rightarrow> ProviderResult
     \<Rightarrow> event list \<times> jstring option" where
  "after_provider w request dir startMs providerResult =
     (let durationMs = int (date_now w AtDone) - int startMs;
          branch = js_string_opt (opt_prop (gitWorkspace request) (js ''branch''));
          payload = (\<lambda>failed text.
            \<lparr>cb_id = req_id request,
             cb_status = (if failed then Error else Success),
             cb_durationMs = durationMs,
             cb_totalCostUsd = totalCostUsd (pr_usage providerResult),
             cb_inputTokens = inputTokens (pr_usage providerResult),
             cb_outputTokens = outputTokens (pr_usage providerResult),
             cb_numTurns = numTurns (pr_usage providerResult),
             cb_result = pr_output providerResult,
             cb_error = (if failed then Some text else None),
             cb_metadata = req_metadata request\<rparr>)
      in if wants_push_check request
         then (case verifyGitPush w dir branch of
                 Inl e \<Rightarrow> ([VerifyGitPushCalled dir branch], Some e)
               | Inr verification \<Rightarrow>
                   if \<not> pushed verification
                   then (VerifyGitPushCalled dir branch
                           # deliver request
                               (payload True
                                  (push_error_text branch (unpushedCommits verification))),
                         None)
                   else (VerifyGitPushCalled dir branch # deliver request (payload False []),
                         None))
         else (deliver request (payload False []), None))"

text \<open>What the \<open>try\<close> block computes from the request before it runs the provider.\<close>

definition merged_mcp :: "json \<Rightarrow> ExecutionRequest \<Rightarrow> json" where
  "merged_mcp overlayMcp request =
     (let requestMcp = nullish_or (opt_prop (req_agent request) (js ''mcpServers'')) (JObj [])
      in spread_merge overlayMcp requestMcp)"

definition providerName :: "BridgeConfig \<Rightarrow> ExecutionRequest \<Rightarrow> json" where
  "providerName config request =
     nullish_or (opt_prop (req_agent request) (js ''provider'')) (JStr (defaultProvider config))"

definition effective_timeout :: "BridgeConfig \<Rightarrow> ExecutionRequest \<Rightarrow> json" where
  "effective_timeout config request =
     nullish_or (opt_prop (opt_prop (req_agent request) (js ''limits'')) (js ''timeoutMs''))
       (JNum (timeout config))"

definition provider_ctx :: "ExecutionRequest \<Rightarrow> jstring \<Rightarrow> json \<Rightarrow> ProviderContext" where
  "provider_ctx request dir mcpServers =
     \<lparr>ctx_cwd = dir,
      ctx_prompt = req_prompt request,
      ctx_agent = nullish_or (req_agent request) (JObj []),
      ctx_mcpServers = mcpServers,
      ctx_executionId = req_id request,
      ctx_memoryUserId = (case opt_prop (req_metadata request) (js ''userId'') of
                            Some (JStr u) \<Rightarrow> Some u
                          | _ \<Rightarrow> None)\<rparr>"

text \<open>
  The \<open>try\<close> block: its events, the value of the variable \<open>cleanup\<close> when the block is
  left, and the error it throws, if any.
\<close>

definition try_block ::
  "world \<Rightarrow> BridgeConfig \<Rightarrow> ExecutionRequest \<Rightarrow> nat
     \<Rightarrow> event list \<times> cleanup_action option \<times> jstring option" where
  "try_block w config request startMs =
     (case setupWorkspace w (req_workspace request) config of
        Inl e \<Rightarrow> ([SetupWorkspaceCalled (req_workspace request)], None, Some e)
      | Inr workspaceResult \<Rightarrow>
          (let dir = cwd workspaceResult;
               cl = Some (cleanup workspaceResult);
               ev = [SetupWorkspaceCalled (req_workspace request)]
           in case loadMcpServers w dir of
                Inl e \<Rightarrow> (ev, cl, Some e)
              | Inr overlayMcp \<Rightarrow>
                  (case getProvider (providerName config request) of
                     Inl e \<Rightarrow> (ev, cl, Some e)
                   | Inr provider \<Rightarrow>
                       (let timeout0 = effective_timeout config request;
                            ctx = provider_ctx request dir (merged_mcp overlayMcp request)
                        in case provider_race w provider ctx timeout0 of
                             Threw msg \<Rightarrow> (ev @ [ProviderRun provider ctx], cl, Some msg)
                           | TimedOut \<Rightarrow>
                               (ev @ [ProviderRun provider ctx], cl,
                                Some (timeout_message w timeout0 (req_id request)))
                           | Completed messages \<Rightarrow>
                               (case after_provider w request dir startMs
                                       (ClaudeCodeProvider_run w messages) of
                                  (ev', thrown) \<Rightarrow>
                                    (ev @ [ProviderRun provider ctx] @ ev', cl, thrown))))))"

text \<open>
  \<open>executeRequest\<close> returns its events and, when the promise is rejected, the error: only
  the disposal closure can make it so, every other error is caught.
\<close>

definition executeRequest ::
  "world \<Rightarrow> BridgeConfig \<Rightarrow> ExecutionRequest \<Rightarrow> event list \<times> jstring option" where
  "executeRequest w config request =
     (let startMs = date_now w AtStart in
      if req_prompt request = [] \<or> trim (req_prompt request) = []
      then (deliver request
              (buildErrorPayload w request
                 (js ''Empty prompt received for request '' @ req_id request) startMs),
            None)
      else (case try_block w config request startMs of
              (ev, cl, thrown) \<Rightarrow>
                (let ev_catch = (case thrown of
                                   None \<Rightarrow> []
                                 | Some errorMsg \<Rightarrow>
                                     deliver request
                                       (buildErrorPayload w request errorMsg startMs))
                 in case cl of
                      None \<Rightarrow> (ev @ ev_catch, None)
                    | Some c \<Rightarrow> (ev @ ev_catch @ [CleanupInvoked c], run_cleanup w c))))"

section \<open>HTTP admission\<close>

text \<open>
  The \<open>POST /execute\<close> branch of the server callback. Its inputs are the
  \<open>Authorization\<close> header, what \<open>readBody\<close> and \<open>JSON.parse\<close> make of the body, and
  the identifier \<open>randomUUID()\<close> would give. It returns the reply and the request it
  submits to the queue, if any; \<open>Inl\<close> is an error thrown out of the callback. The
  transport reads \<open>httpBearerToken\<close> and \<open>httpNoAuth\<close> from its configuration.
\<close>

record HttpConfig =
  httpBearerToken :: "jstring option"
  httpNoAuth :: bool

datatype body = TooLarge | NotJson | Parsed json

datatype reply = Reply nat "(jstring \<times> json) list"

definition VALID_WORKSPACE_TYPES :: "json list" where
  "VALID_WORKSPACE_TYPES = [JStr (js ''git''), JStr (js ''tempdir'')]"

text \<open>
  \<open>Buffer.from(s)\<close>: the UTF-8 bytes of a string. A surrogate pair is one code point of
  four bytes; a surrogate without its partner is written as U+FFFD.
\<close>

definition utf8_code_point :: "nat \<Rightarrow> nat list" where
  "utf8_code_point cp =
     (if cp < 0x80 then [cp]
      else if cp < 0x800 then [0xC0 + cp div 64, 0x80 + cp mod 64]
      else if cp < 0x10000
      then [0xE0 + cp div 4096, 0x80 + (cp div 64) mod 64, 0x80 + cp mod 64]
      else [0xF0 + cp div 262144, 0x80 + (cp div 4096) mod 64, 0x80 + (cp div 64) mod 64,
            0x80 + cp mod 64])"

fun utf8 :: "jstring \<Rightarrow> nat list" where
  "utf8 [] = []"
| "utf8 [c] =
     (if 0xD800 \<le> c \<and> c < 0xE000 then utf8_code_point 0xFFFD else utf8_code_point c)"
| "utf8 (c # d # cs) =
     (if 0xD800 \<le> c \<and> c < 0xDC00 \<and> 0xDC00 \<le> d \<and> d < 0xE000
      then utf8_code_point (0x10000 + (c - 0xD800) * 0x400 + (d - 0xDC00)) @ utf8 cs
      else if 0xD800 \<le> c \<and> c < 0xE000 then utf8_code_point 0xFFFD @ utf8 (d # cs)
      else utf8_code_point c @ utf8 (d # cs))"

text \<open>
  \<open>timingSafeEqual\<close> throws a \<open>RangeError\<close> when its buffers differ in length.
  \<open>verifyBearerToken\<close> compares the lengths of the strings first, in code units.
\<close>

definition timingSafeEqual :: "nat list \<Rightarrow> nat list \<Rightarrow> jstring + bool" where
  "timingSafeEqual a b =
     (if length a \<noteq> length b then Inl (js ''Input buffers must have the same byte length'')
      else Inr (a = b))"

definition verifyBearerToken :: "jstring option \<Rightarrow> jstring \<Rightarrow> jstring + bool" where
  "verifyBearerToken auth expected =
     (case auth of
        None \<Rightarrow> Inr False
      | Some a \<Rightarrow>
          if a = [] \<or> \<not> prefix (js ''Bearer '') a then Inr False
          else (let token = drop 7 a in
                if length token \<noteq> length expected then Inr False
                else timingSafeEqual (utf8 token) (utf8 expected)))"

text \<open>
  The check of the \<open>Authorization\<close> header: it passes without a look when \<open>noAuth\<close> is
  set, fails when no token is configured, and else is \<open>verifyBearerToken\<close>.
\<close>

definition authorized :: "HttpConfig \<Rightarrow> jstring option \<Rightarrow> jstring + bool" where
  "authorized config auth =
     (if httpNoAuth config then Inr True
      else (case httpBearerToken config of
              None \<Rightarrow> Inr False
            | Some bearerToken \<Rightarrow>
                if bearerToken = [] then Inr False else verifyBearerToken auth bearerToken))"

text \<open>
  \<open>!data.prompt || typeof data.prompt !== "string" || data.prompt.trim() === ""\<close>
\<close>

definition prompt_missing :: "json \<Rightarrow> bool" where
  "prompt_missing data =
     (case field_of data (js ''prompt'') of
        Some (JStr prompt) \<Rightarrow> prompt = [] \<or> trim prompt = []
      | _ \<Rightarrow> True)"

text \<open>
  The workspace is an object that is not an array, its \<open>type\<close> is not \<open>undefined\<close>, and
  the set of valid types does not have it.
\<close>

definition workspace_type_invalid :: "json \<Rightarrow> bool" where
  "workspace_type_invalid data =
     (case field_of data (js ''workspace'') of
        Some (JObj ws) \<Rightarrow>
          (case map_of ws (js ''type'') of
             None \<Rightarrow> False
           | Some t \<Rightarrow> t \<notin> set VALID_WORKSPACE_TYPES)
      | _ \<Rightarrow> False)"

text \<open>The request built from the body; its prompt has been checked to be a string.\<close>

definition build_request :: "json \<Rightarrow> jstring \<Rightarrow> ExecutionRequest" where
  "build_request data uuid =
     \<lparr>req_id = (case field_of data (js ''id'') of Some (JStr i) \<Rightarrow> i | _ \<Rightarrow> uuid),
      req_prompt = (case field_of data (js ''prompt'') of Some (JStr prompt) \<Rightarrow> prompt | _ \<Rightarrow> []),
      req_callbackUrl = (case field_of data (js ''callbackUrl'') of
                           Some (JStr u) \<Rightarrow> Some u
                         | _ \<Rightarrow> None),
      req_workspace = field_of data (js ''workspace''),
      req_agent = field_of data (js ''agent''),
      req_metadata = (case field_of data (js ''metadata'') of
                        Some (JObj m) \<Rightarrow> Some (JObj m)
                      | _ \<Rightarrow> None)\<rparr>"

definition prompt_reply :: reply where
  "prompt_reply =
     Reply 400
       [(js ''error'', JStr (js ''Field 'prompt' is required and must be a non-empty string''))]"

definition workspace_reply :: reply where
  "workspace_reply =
     Reply 400
       [(js ''error'', JStr (js ''Invalid workspace.type: must be one of ''
                          @ join_with (js '', '') (map js_string VALID_WORKSPACE_TYPES)))]"

definition accepted_reply :: "jstring \<Rightarrow> reply" where
  "accepted_reply ident =
     Reply 202 [(js ''id'', JStr ident), (js ''status'', JStr (js ''accepted''))]"

definition post_execute ::
  "HttpConfig \<Rightarrow> jstring option \<Rightarrow> body \<Rightarrow> jstring
     \<Rightarrow> jstring + reply \<times> ExecutionRequest option" where
  "post_execute config auth rawBody uuid =
     (case authorized config auth of
        Inl e \<Rightarrow> Inl e
      | Inr False \<Rightarrow> Inr (Reply 401 [(js ''error'', JStr (js ''Unauthorized''))], None)
      | Inr True \<Rightarrow>
      case rawBody of
        TooLarge \<Rightarrow> Inr (Reply 413 [(js ''error'', JStr (js ''Request body too large''))], None)
      | NotJson \<Rightarrow> Inr (Reply 400 [(js ''error'', JStr (js ''Invalid JSON''))], None)
      | Parsed data \<Rightarrow>
          if data = JNull
          then Inl (js ''Cannot read properties of null (reading '' @ [0x27] @ js ''prompt''
                    @ [0x27] @ js '')'')
          else if prompt_missing data then Inr (prompt_reply, None)
          else if workspace_type_invalid data then Inr (workspace_reply, None)
          else (let request = build_request data uuid
                in Inr (accepted_reply (req_id request), Some request)))"

section \<open>The request queue\<close>

text \<open>
  Modelled from the spec: the module \<open>queue.ts\<close> (\<open>createQueue(maxConcurrent)\<close> with
  \<open>submit\<close> and \<open>getStatus\<close>) is not among the sources. The spec's words: \<open>submit\<close>, if
  the active count is below the maximum, begins the execution at once, otherwise it appends
  the request to a FIFO backlog; starting an execution increments the active count; its
  completion, whatever the outcome, decrements it and, if the backlog is not empty,
  dequeues the head and starts it. Each operation returns the requests it starts.
\<close>

record 'r QueueState =
  active :: nat
  queued :: "'r list"
  maxConcurrent :: nat

text \<open>Modelled from the spec: \<open>createQueue(maxConcurrent)\<close> of the missing \<open>queue.ts\<close>; a new
  queue has no active execution and an empty backlog.\<close>

definition createQueue :: "nat \<Rightarrow> 'r QueueState" where
  "createQueue m = \<lparr>active = 0, queued = [], maxConcurrent = m\<rparr>"

text \<open>Modelled from the spec: starting an execution (inside the missing \<open>queue.ts\<close>)
  increments the active count.\<close>

definition start :: "'r \<Rightarrow> 'r QueueState \<Rightarrow> 'r list \<times> 'r QueueState" where
  "start r q = ([r], q\<lparr>active := active q + 1\<rparr>)"

text \<open>Modelled from the spec: \<open>submit(request)\<close> of the missing \<open>queue.ts\<close>; if the active
  count is below the maximum, begin the execution at once, otherwise append the request
  to the FIFO backlog.\<close>

definition submit :: "'r \<Rightarrow> 'r QueueState \<Rightarrow> 'r list \<times> 'r QueueState" where
  "submit r q =
     (if active q < maxConcurrent q then start r q
      else ([], q\<lparr>queued := queued q @ [r]\<rparr>))"

text \<open>Modelled from the spec: the completion of an execution, whatever its outcome (inside
  the missing \<open>queue.ts\<close>), decrements the active count and, if the backlog is not empty,
  dequeues the head and starts it.\<close>

definition on_complete :: "'r QueueState \<Rightarrow> 'r list \<times> 'r QueueState" where
  "on_complete q =
     (let q' = q\<lparr>active := active q - 1\<rparr> in
      case queued q' of
        [] \<Rightarrow> ([], q')
      | r # rest \<Rightarrow> start r (q'\<lparr>queued := rest\<rparr>))"

text \<open>
  A history of the queue: submissions and completions in the order they happen. Only an
  execution that is active can complete, so a completion with no active execution is not
  a history (\<open>None\<close>). \<open>queue_states\<close> lists the state after each operation.
\<close>

datatype 'r queue_op = Submit 'r | Complete

fun queue_states :: "'r QueueState \<Rightarrow> 'r queue_op list \<Rightarrow> 'r QueueState list option" where
  "queue_states q [] = Some []"
| "queue_states q (Submit r # ops) =
     (let q' = snd (submit r q) in
      case queue_states q' ops of None \<Rightarrow> None | Some qs \<Rightarrow> Some (q' # qs))"
| "queue_states q (Complete # ops) =
     (if active q = 0 then None
      else (let q' = snd (on_complete q) in
            case queue_states q' ops of None \<Rightarrow> None | Some qs \<Rightarrow> Some (q' # qs)))"

section \<open>Reading a run\<close>

fun cleanups :: "event list \<Rightarrow> cleanup_action list" where
  "cleanups [] = []"
| "cleanups (CleanupInvoked c # es) = c # cleanups es"
| "cleanups (e # es) = cleanups es"

fun payloads :: "event list \<Rightarrow> CallbackPayload list" where
  "payloads [] = []"
| "payloads (CallbackSent url p # es) = p # payloads es"
| "payloads (e # es) = payloads es"

fun setups :: "event list \<Rightarrow> json option list" where
  "setups [] = []"
| "setups (SetupWorkspaceCalled ws # es) = ws # setups es"
| "setups (e # es) = setups es"

fun push_checks :: "event list \<Rightarrow> (jstring \<times> jstring) list" where
  "push_checks [] = []"
| "push_checks (VerifyGitPushCalled dir branch # es) = (dir, branch) # push_checks es"
| "push_checks (e # es) = push_checks es"

section \<open>Sample inputs\<close>

text \<open>
  A world where nothing fails and nothing exists yet: every command exits with code 0 and
  prints nothing, no path exists, and the stream of the SDK ends without a message.
\<close>

definition calm_world :: world where
  "calm_world =
     \<lparr>process_cwd = js ''/srv/bridge'',
      tmpdir = js ''/tmp'',
      date_now = (\<lambda>site. 1700000000000),
      run = (\<lambda>cmd dir. Exit 0 [] []),
      existsSync = (\<lambda>path. False),
      mkdirSync = (\<lambda>path. None),
      mkdtempSync = (\<lambda>prefix. Inr (prefix @ js ''a1b2c3'')),
      readdirSync = (\<lambda>path. Inr []),
      cpSync = (\<lambda>src dst. None),
      writeFileSync = (\<lambda>path content. None),
      rmSync = (\<lambda>path. None),
      read_json = (\<lambda>path. Inr (JObj [])),
      json_stringify = (\<lambda>v. js ''{}''),
      round_minutes = (\<lambda>t. js ''NaN''),
      provider_race = (\<lambda>name ctx t. Completed [])\<rparr>"

definition bridge_config :: BridgeConfig where
  "bridge_config =
     \<lparr>reposDir = js ''/tmp/agent-bridge/repos'',
      worktreesDir = js ''/tmp/agent-bridge/worktrees'',
      overlaysDir = js ''/srv/bridge/.overlays'',
      timeout = 1800000,
      defaultProvider = js ''claude-code''\<rparr>"

definition tempdir_request :: ExecutionRequest where
  "tempdir_request =
     \<lparr>req_id = js ''r1'',
      req_prompt = js ''do it'',
      req_callbackUrl = Some (js ''http://cb.example/done''),
      req_workspace = Some (JObj [(js ''type'', JStr (js ''tempdir''))]),
      req_agent = None,
      req_metadata = None\<rparr>"

text \<open>A prompt of a space, a no-break space, a line separator and a byte order mark.\<close>

definition blank_request :: ExecutionRequest where
  "blank_request =
     \<lparr>req_id = js ''r2'',
      req_prompt = [0x20, 0xA0, 0x2028, 0xFEFF],
      req_callbackUrl = Some (js ''http://cb.example/done''),
      req_workspace = Some (JObj [(js ''type'', JStr (js ''tempdir''))]),
      req_agent = None,
      req_metadata = None\<rparr>"

text \<open>
  The run gets as far as the end of the provider's stream: the prompt passes the guard,
  the workspace is set up in \<open>dir\<close>, the MCP servers load, the provider is registered,
  and the race ends with the provider having read \<open>messages\<close>.
\<close>

definition completes_with ::
  "world \<Rightarrow> BridgeConfig \<Rightarrow> ExecutionRequest \<Rightarrow> jstring \<Rightarrow> sdk_message list \<Rightarrow> bool" where
  "completes_with w config request dir messages =
     (trim (req_prompt request) \<noteq> [] \<and>
      (case setupWorkspace w (req_workspace request) config of
         Inl e \<Rightarrow> False
       | Inr workspaceResult \<Rightarrow>
           dir = cwd workspaceResult \<and>
           (case loadMcpServers w dir of
              Inl e \<Rightarrow> False
            | Inr overlayMcp \<Rightarrow>
                (case getProvider (providerName config request) of
                   Inl e \<Rightarrow> False
                 | Inr provider \<Rightarrow>
                     provider_race w provider
                       (provider_ctx request dir (merged_mcp overlayMcp request))
                       (effective_timeout config request) = Completed messages))))"






text \<open>
  A world where the agent has committed without pushing: \<open>git log\<close> prints one commit,
  and the provider ends with a result message that reports its usage.
\<close>

definition agent_messages :: "sdk_message list" where
  "agent_messages =
     [OtherMessage,
      ResultMessage \<lparr>total_cost_usd = Some (1 / 4), input_tokens = Some 1200,
                     output_tokens = Some 340, num_turns = Some 7,
                     structured_output = None,
                     result_field = Some (JStr (js ''pushed feature-x''))\<rparr>]"

definition push_world :: world where
  "push_world =
     calm_world\<lparr>run := (\<lambda>cmd dir.
                    if cmd = js ''git log --oneline origin/feature-x..HEAD''
                    then Exit 0 (js ''abc1234 add parser'' @ [0x0A]) []
                    else Exit 0 [] []),
                provider_race := (\<lambda>name ctx t. Completed agent_messages)\<rparr>"

definition feature_request :: ExecutionRequest where
  "feature_request =
     \<lparr>req_id = js ''r4'',
      req_prompt = js ''do it'',
      req_callbackUrl = Some (js ''http://cb.example/done''),
      req_workspace = Some (JObj [(js ''type'', JStr (js ''git'')),
                                 (js ''repo'', JStr (js ''owner/repo'')),
                                 (js ''branch'', JStr (js ''feature-x''))]),
      req_agent = None,
      req_metadata = Some (JObj [(js ''expectBranchPush'', JBool True)])\<rparr>"

text \<open>
  A bare store as far as \<open>git worktree add\<close> looks at it: the branches it holds and the
  branch its \<open>HEAD\<close> names, the default branch of the repository. \<open>store_world st w\<close>
  answers \<open>git worktree add --detach <path> <ref>\<close> from the store, with exit code 0 when
  \<open><ref>\<close> is one of its branches and with code 128 and git's complaint when it is not,
  and answers everything else as \<open>w\<close> does.
\<close>

record bare_store =
  branches :: "jstring list"
  head_branch :: jstring

definition last_word :: "jstring \<Rightarrow> jstring" where
  "last_word cmd = rev (takeWhile (\<lambda>c. c \<noteq> 0x20) (rev cmd))"

definition store_world :: "bare_store \<Rightarrow> world \<Rightarrow> world" where
  "store_world st w =
     w\<lparr>run := (\<lambda>cmd dir.
          if prefix (js ''git worktree add --detach '') cmd
          then (if last_word cmd \<in> set (branches st) then Exit 0 [] []
                else Exit 128 [] (js ''fatal: invalid reference: '' @ last_word cmd @ [0x0A]))
          else run w cmd dir)\<rparr>"

definition master_store :: bare_store where
  "master_store = \<lparr>branches = [js ''master'', js ''develop''], head_branch = js ''master''\<rparr>"

definition main_store :: bare_store where
  "main_store = \<lparr>branches = [js ''main'', js ''develop''], head_branch = js ''main''\<rparr>"

text \<open>
  A repository whose default branch is \<open>master\<close> and which has a branch \<open>main\<close> as
  well, and a request for that branch with the push verification asked for.
\<close>

definition trunk_store :: bare_store where
  "trunk_store = \<lparr>branches = [js ''master'', js ''main''], head_branch = js ''master''\<rparr>"

definition main_branch_request :: ExecutionRequest where
  "main_branch_request =
     \<lparr>req_id = js ''r6'',
      req_prompt = js ''do it'',
      req_callbackUrl = Some (js ''http://cb.example/done''),
      req_workspace = Some (JObj [(js ''type'', JStr (js ''git'')),
                                 (js ''repo'', JStr (js ''owner/repo'')),
                                 (js ''branch'', JStr (js ''main''))]),
      req_agent = None,
      req_metadata = Some (JObj [(js ''expectBranchPush'', JBool True)])\<rparr>"

text \<open>
  What \<open>git log --oneline\<close> prints for a list of commits, one summary per line, and the
  summaries it can print: none is empty or holds a line feed, the first does not begin and
  the last does not end with white space.
\<close>

definition oneline_output :: "jstring list \<Rightarrow> jstring" where
  "oneline_output cs = concat (map (\<lambda>c. c @ [0x0A]) cs)"

definition summaries_ok :: "jstring list \<Rightarrow> bool" where
  "summaries_ok cs =
     (cs \<noteq> [] \<and> list_all (\<lambda>c. c \<noteq> [] \<and> 0x0A \<notin> set c) cs \<and>
      \<not> is_space (hd (hd cs)) \<and> \<not> is_space (last (last cs)))"

text \<open>
  The worktree of a bare clone whose heads were fetched to \<open>refs/heads/*\<close>: there is no
  ref \<open>origin/feature-x\<close>, so \<open>git log\<close> fails with code 128, and the branch is on the
  remote, so \<open>git ls-remote\<close> prints its ref.
\<close>

definition log_fails_world :: world where
  "log_fails_world =
     calm_world\<lparr>run := (\<lambda>cmd dir.
        if cmd = js ''git log --oneline origin/feature-x..HEAD''
        then Exit 128 []
               (js ''fatal: ambiguous argument '' @ [0x27] @ js ''origin/feature-x..HEAD''
                @ [0x27] @ js '': unknown revision or path not in the working tree.''
                @ [0x0A])
        else if cmd = js ''git ls-remote --heads origin feature-x''
        then Exit 0 (js ''5d41402abc4b2a76b9719d911017c592a1b2c3d4'' @ [0x09]
                     @ js ''refs/heads/feature-x'' @ [0x0A]) []
        else Exit 0 [] [])\<rparr>"

text \<open>
  Sample inputs of the admission: a server with a bearer token, a body whose workspace has
  no \<open>type\<close>, a body whose workspace has an unknown \<open>type\<close>, and a history of the
  queue with four submissions and two completions.
\<close>

definition open_http :: HttpConfig where
  "open_http = \<lparr>httpBearerToken = Some (js ''s3cret''), httpNoAuth = False\<rparr>"

definition typeless_body :: json where
  "typeless_body =
     JObj [(js ''id'', JStr (js ''r5'')), (js ''prompt'', JStr (js ''do it'')),
           (js ''callbackUrl'', JStr (js ''http://cb.example/done'')),
           (js ''workspace'', JObj [(js ''repo'', JStr (js ''owner/repo''))])]"

definition docker_body :: json where
  "docker_body =
     JObj [(js ''prompt'', JStr (js ''do it'')),
           (js ''workspace'', JObj [(js ''type'', JStr (js ''docker''))])]"

definition four_then_two :: "jstring queue_op list" where
  "four_then_two =
     [Submit (js ''a''), Submit (js ''b''), Submit (js ''c''), Submit (js ''d''),
      Complete, Complete]"

section \<open>Properties\<close>

subsection \<open>Writing strings\<close>

lemma js_simps [simp]: "js [] = []" "js (c # cs) = of_char c # js cs"
  by (simp_all add: js_def)

subsection \<open>Repo slug\<close>

text \<open>
  C9. \<open>repoSlug("owner/repo")\<close> is \<open>"owner--repo"\<close>, and
  \<open>repoSlug("https://github.com/owner/repo.git")\<close> is \<open>"owner--repo"\<close> too.
\<close>

theorem repoSlug_examples:
  "repoSlug (js ''owner/repo'') = Inr (js ''owner--repo'') \<and>
   repoSlug (js ''https://github.com/owner/repo.git'') = Inr (js ''owner--repo'')"
  by (simp add: repoSlug_def repo_rx_def)

subsection \<open>Facts about strings and runs\<close>

lemma trim_Nil_iff: "trim s = [] \<longleftrightarrow> (\<forall>c\<in>set s. is_space c)"
proof -
  have "trim s = [] \<longleftrightarrow> (\<forall>c\<in>set (dropWhile is_space s). is_space c)"
    by (simp add: trim_def)
  also have "\<dots> \<longleftrightarrow> (\<forall>c\<in>set s. is_space c)"
  proof
    assume a: "\<forall>c\<in>set (dropWhile is_space s). is_space c"
    have "dropWhile is_space s = []"
    proof (rule ccontr)
      assume ne: "dropWhile is_space s \<noteq> []"
      then have "\<not> is_space (hd (dropWhile is_space s))" by (rule hd_dropWhile)
      moreover have "hd (dropWhile is_space s) \<in> set (dropWhile is_space s)"
        using ne by (rule hd_in_set)
      ultimately show False using a by blast
    qed
    then show "\<forall>c\<in>set s. is_space c" by simp
  next
    assume "\<forall>c\<in>set s. is_space c"
    then show "\<forall>c\<in>set (dropWhile is_space s). is_space c"
      by (meson set_dropWhileD)
  qed
  finally show ?thesis .
qed

lemma trim_do_it: "trim (js ''do it'') = js ''do it''"
  by (simp add: trim_def is_space_def)

lemma cleanups_append: "cleanups (xs @ ys) = cleanups xs @ cleanups ys"
  by (induction xs rule: cleanups.induct) auto

lemma cleanups_deliver: "cleanups (deliver request p) = []"
  by (simp add: deliver_def split: option.splits)

lemma setups_deliver: "setups (deliver request p) = []"
  by (simp add: deliver_def split: option.splits)

lemma cleanups_after_provider:
  "cleanups (fst (after_provider w request dir startMs r)) = []"
  by (simp add: after_provider_def Let_def cleanups_deliver split: sum.splits)

lemma cleanups_try_block:
  "cleanups (fst (try_block w config request startMs)) = []"
  by (auto simp: try_block_def Let_def cleanups_append cleanups_after_provider
      split: sum.splits race.splits prod.splits
      dest: arg_cong [where f = "\<lambda>x. cleanups (fst x)"])

lemma try_block_cleanup_var:
  "fst (snd (try_block w config request startMs)) =
     (case setupWorkspace w (req_workspace request) config of
        Inl e \<Rightarrow> None
      | Inr r \<Rightarrow> Some (cleanup r))"
  by (simp add: try_block_def Let_def split: sum.splits race.splits prod.splits)

subsection \<open>The disposal of the workspace\<close>

text \<open>
  C1. A run whose prompt passes the guard enters workspace setup. If \<open>setupWorkspace\<close>
  returns a handle, the run calls the disposal closure of that handle exactly once, and no
  other; if \<open>setupWorkspace\<close> throws, the run calls no disposal closure. This holds in
  every world, so on every way out of the \<open>try\<close> block: the provider returns a result
  with either status, the timer fires, the push verification downgrades the result, or
  \<open>loadMcpServers\<close>, \<open>getProvider\<close> or the provider throws.
\<close>

theorem cleanup_exactly_once:
  assumes "trim (req_prompt request) \<noteq> []"
  shows "cleanups (fst (executeRequest w config request)) =
           (case setupWorkspace w (req_workspace request) config of
              Inl e \<Rightarrow> []
            | Inr r \<Rightarrow> [cleanup r])"
proof -
  from assms have ne: "req_prompt request \<noteq> []"
    by (auto simp: trim_def)
  obtain ev cl thrown
    where tb: "try_block w config request (date_now w AtStart) = (ev, cl, thrown)"
    by (cases "try_block w config request (date_now w AtStart)") auto
  have ev: "cleanups ev = []"
    using cleanups_try_block [of w config request "date_now w AtStart"] tb by simp
  have cl: "cl = (case setupWorkspace w (req_workspace request) config of
                    Inl e \<Rightarrow> None
                  | Inr r \<Rightarrow> Some (cleanup r))"
    using try_block_cleanup_var [of w config request "date_now w AtStart"] tb by simp
  show ?thesis
    using assms ne ev
    by (simp add: executeRequest_def Let_def tb cl cleanups_append cleanups_deliver
        split: sum.splits option.splits)
qed

theorem cleanup_exactly_once_witness:
  "trim (req_prompt tempdir_request) \<noteq> [] \<and>
   cleanups (fst (executeRequest calm_world bridge_config tempdir_request)) =
     [CleanupTempdir (js ''/tmp/bridge-a1b2c3'')]"
  using cleanup_exactly_once [of tempdir_request calm_world bridge_config] trim_do_it
  by (simp add: tempdir_request_def setupWorkspace_def setup_tempdir_def calm_world_def
      join_def path_normalize_def normalizeString_def norm_step_def)

subsection \<open>The guard on the prompt\<close>

text \<open>
  C7. When the prompt is empty or holds only white space, \<open>executeRequest\<close> does one
  thing: if a callback URL is given, it sends one payload with status \<open>error\<close> and all
  usage counters zero. It does not call \<open>setupWorkspace\<close>, and so no disposal closure.
\<close>

theorem blank_prompt_short_circuit:
  assumes "\<forall>c\<in>set (req_prompt request). is_space c"
  shows "fst (executeRequest w config request) =
           (case req_callbackUrl request of
              None \<Rightarrow> []
            | Some url \<Rightarrow>
                if url = [] then []
                else [CallbackSent url
                        \<lparr>cb_id = req_id request,
                         cb_status = Error,
                         cb_durationMs =
                           int (date_now w AtErrorPayload) - int (date_now w AtStart),
                         cb_totalCostUsd = 0,
                         cb_inputTokens = 0,
                         cb_outputTokens = 0,
                         cb_numTurns = 0,
                         cb_result = None,
                         cb_error =
                           Some (js ''Empty prompt received for request '' @ req_id request),
                         cb_metadata = req_metadata request\<rparr>])
         \<and> setups (fst (executeRequest w config request)) = []
         \<and> cleanups (fst (executeRequest w config request)) = []"
proof -
  from assms have t: "trim (req_prompt request) = []"
    by (simp add: trim_Nil_iff)
  have "fst (executeRequest w config request) =
          deliver request
            (buildErrorPayload w request
               (js ''Empty prompt received for request '' @ req_id request) (date_now w AtStart))"
    by (simp add: executeRequest_def Let_def t)
  then show ?thesis
    by (simp add: setups_deliver cleanups_deliver)
       (simp add: deliver_def buildErrorPayload_def split: option.splits)
qed

theorem blank_prompt_short_circuit_witness:
  "list_all is_space (req_prompt blank_request) \<and>
   req_prompt blank_request = [0x20, 0xA0, 0x2028, 0xFEFF] \<and>
   map cb_status (payloads (fst (executeRequest calm_world bridge_config blank_request)))
     = [Error] \<and>
   setups (fst (executeRequest calm_world bridge_config blank_request)) = []"
  using blank_prompt_short_circuit [of blank_request calm_world bridge_config]
  by (simp add: blank_request_def is_space_def)

subsection \<open>Provider failures and timeouts\<close>

lemma payloads_append: "payloads (xs @ ys) = payloads xs @ payloads ys"
  by (induction xs rule: payloads.induct) auto

lemma payloads_deliver:
  "payloads (deliver request p) =
     (case req_callbackUrl request of
        None \<Rightarrow> []
      | Some url \<Rightarrow> if url = [] then [] else [p])"
  by (simp add: deliver_def split: option.splits)











subsection \<open>Push verification\<close>

lemma verifyGitPush_returns: "\<exists>v. verifyGitPush w dir branch = Inr v"
  by (simp add: verifyGitPush_def try_catch_def split: sum.splits)

lemma after_provider_no_throw: "snd (after_provider w request dir startMs r) = None"
  using verifyGitPush_returns
    [of w dir "js_string_opt (opt_prop (gitWorkspace request) (js ''branch''))"]
  by (auto simp: after_provider_def Let_def split: sum.splits)

lemma push_checks_append: "push_checks (xs @ ys) = push_checks xs @ push_checks ys"
  by (induction xs rule: push_checks.induct) auto

lemma push_checks_deliver: "push_checks (deliver request p) = []"
  by (simp add: deliver_def split: option.splits)

lemma wants_push_check_git:
  "wants_push_check request \<Longrightarrow> gitWorkspace request = req_workspace request"
  by (auto simp: wants_push_check_def gitWorkspace_def truthy_opt_def split: if_splits)

lemma push_checks_after_provider:
  "push_checks (fst (after_provider w request dir startMs r)) =
     (if wants_push_check request
      then [(dir, js_string_opt (opt_prop (req_workspace request) (js ''branch'')))]
      else [])"
  using verifyGitPush_returns
    [of w dir "js_string_opt (opt_prop (gitWorkspace request) (js ''branch''))"]
  by (auto simp: after_provider_def Let_def push_checks_deliver wants_push_check_git
      split: sum.splits)

lemma push_checks_try_block:
  "push_checks (fst (try_block w config request startMs)) \<noteq> [] \<Longrightarrow> wants_push_check request"
  by (auto simp: try_block_def Let_def push_checks_append
      split: sum.splits race.splits prod.splits if_splits
      dest!: arg_cong [where f = "\<lambda>x. push_checks (fst x)"]
      simp: push_checks_after_provider)

lemma push_checks_execute:
  "push_checks (fst (executeRequest w config request)) \<noteq> [] \<Longrightarrow> wants_push_check request"
proof -
  assume a: "push_checks (fst (executeRequest w config request)) \<noteq> []"
  obtain ev cl thrown
    where tb: "try_block w config request (date_now w AtStart) = (ev, cl, thrown)"
    by (cases "try_block w config request (date_now w AtStart)") auto
  from a have "push_checks ev \<noteq> []"
    by (auto simp: executeRequest_def Let_def tb push_checks_append push_checks_deliver
        split: if_splits option.splits)
  then show ?thesis
    using push_checks_try_block [of w config request "date_now w AtStart"] tb by simp
qed

lemma execute_completed:
  assumes "completes_with w config request dir messages"
  shows "\<exists>pre c. fst (executeRequest w config request) =
           pre @ fst (after_provider w request dir (date_now w AtStart)
                        (ClaudeCodeProvider_run w messages))
             @ [CleanupInvoked c]
           \<and> push_checks pre = [] \<and> payloads pre = []"
proof -
  from assms have ne: "req_prompt request \<noteq> []" "trim (req_prompt request) \<noteq> []"
    by (auto simp: completes_with_def trim_def)
  obtain ev' thrown
    where ap: "after_provider w request dir (date_now w AtStart)
                 (ClaudeCodeProvider_run w messages) = (ev', thrown)"
    by (cases "after_provider w request dir (date_now w AtStart)
                 (ClaudeCodeProvider_run w messages)") auto
  have "thrown = None"
    using after_provider_no_throw
      [of w request dir "date_now w AtStart" "ClaudeCodeProvider_run w messages"] ap
    by simp
  with assms ne ap show ?thesis
    by (auto simp: completes_with_def executeRequest_def try_block_def Let_def
        split: sum.splits)
qed

text \<open>
  C4 (as amended). In any run, \<open>verifyGitPush\<close> is called only if the workspace has type
  \<open>git\<close>, its branch is set and is not the name \<open>main\<close>, whatever the default branch of
  the repository is, and \<open>metadata.expectBranchPush\<close> is \<open>true\<close>; in a run that gets a
  result from the provider it is called exactly when these hold, once, on the working
  directory and that branch. When it then reports not pushed, the payload has status
  \<open>error\<close>, the text \<open>Git push verification failed: branch "<branch>" has unpushed
  changes: <commits>\<close> as its error, and the four usage counters of the provider's
  result.
\<close>

theorem push_verification_gate:
  "(push_checks (fst (executeRequest w config request)) \<noteq> [] \<longrightarrow>
      opt_prop (req_workspace request) (js ''type'') = Some (JStr (js ''git'')) \<and>
      truthy_opt (opt_prop (req_workspace request) (js ''branch'')) \<and>
      opt_prop (req_workspace request) (js ''branch'') \<noteq> Some (JStr (js ''main'')) \<and>
      opt_prop (req_metadata request) (js ''expectBranchPush'') = Some (JBool True))
   \<and> (completes_with w config request dir messages \<longrightarrow>
        push_checks (fst (executeRequest w config request)) =
          (if opt_prop (req_workspace request) (js ''type'') = Some (JStr (js ''git'')) \<and>
              truthy_opt (opt_prop (req_workspace request) (js ''branch'')) \<and>
              opt_prop (req_workspace request) (js ''branch'') \<noteq> Some (JStr (js ''main'')) \<and>
              opt_prop (req_metadata request) (js ''expectBranchPush'') = Some (JBool True)
           then [(dir, js_string_opt (opt_prop (req_workspace request) (js ''branch'')))]
           else []))
   \<and> (completes_with w config request dir messages \<and>
        opt_prop (req_workspace request) (js ''type'') = Some (JStr (js ''git'')) \<and>
        opt_prop (req_workspace request) (js ''branch'') = Some b \<and> truthy b \<and>
        b \<noteq> JStr (js ''main'') \<and>
        opt_prop (req_metadata request) (js ''expectBranchPush'') = Some (JBool True) \<and>
        verifyGitPush w dir (js_string b) = Inr v \<and> \<not> pushed v \<longrightarrow>
        payloads (fst (executeRequest w config request)) =
          (case req_callbackUrl request of
             None \<Rightarrow> []
           | Some url \<Rightarrow>
               if url = [] then []
               else [\<lparr>cb_id = req_id request,
                      cb_status = Error,
                      cb_durationMs = int (date_now w AtDone) - int (date_now w AtStart),
                      cb_totalCostUsd =
                        totalCostUsd (pr_usage (ClaudeCodeProvider_run w messages)),
                      cb_inputTokens =
                        inputTokens (pr_usage (ClaudeCodeProvider_run w messages)),
                      cb_outputTokens =
                        outputTokens (pr_usage (ClaudeCodeProvider_run w messages)),
                      cb_numTurns = numTurns (pr_usage (ClaudeCodeProvider_run w messages)),
                      cb_result = pr_output (ClaudeCodeProvider_run w messages),
                      cb_error =
                        Some (js ''Git push verification failed: branch '' @ [0x22]
                              @ js_string b @ [0x22] @ js '' has unpushed changes: ''
                              @ join_with (js '', '') (unpushedCommits v)),
                      cb_metadata = req_metadata request\<rparr>]))"
proof -
  let ?ev = "fst (executeRequest w config request)"
  let ?r = "ClaudeCodeProvider_run w messages"
  let ?cond = "opt_prop (req_workspace request) (js ''type'') = Some (JStr (js ''git'')) \<and>
      truthy_opt (opt_prop (req_workspace request) (js ''branch'')) \<and>
      opt_prop (req_workspace request) (js ''branch'') \<noteq> Some (JStr (js ''main'')) \<and>
      opt_prop (req_metadata request) (js ''expectBranchPush'') = Some (JBool True)"
  have cond: "wants_push_check request \<longleftrightarrow> ?cond"
  proof
    assume "wants_push_check request"
    then show ?cond
      by (auto simp: wants_push_check_def gitWorkspace_def truthy_opt_def split: if_splits)
  next
    assume c: ?cond
    then obtain ws where ws: "req_workspace request = Some ws"
      by (cases "req_workspace request") auto
    with c obtain kvs where "ws = JObj kvs"
      by (cases ws) auto
    with c ws show "wants_push_check request"
      by (simp add: wants_push_check_def gitWorkspace_def truthy_opt_def)
  qed
  have only_if: "push_checks ?ev \<noteq> [] \<longrightarrow> ?cond"
    using push_checks_execute cond by blast
  have performed: "push_checks ?ev =
          (if ?cond
           then [(dir, js_string_opt (opt_prop (req_workspace request) (js ''branch'')))]
           else [])"
    if s: "completes_with w config request dir messages"
  proof -
    from execute_completed [OF s] obtain pre c where
      e: "?ev = pre @ fst (after_provider w request dir (date_now w AtStart) ?r)
                  @ [CleanupInvoked c]"
      and p: "push_checks pre = []" by blast
    have "push_checks ?ev =
            (if wants_push_check request
             then [(dir, js_string_opt (opt_prop (req_workspace request) (js ''branch'')))]
             else [])"
      by (simp add: e p push_checks_append push_checks_after_provider)
    then show ?thesis
      by (simp only: cond)
  qed
  have downgraded: "payloads ?ev =
          (case req_callbackUrl request of
             None \<Rightarrow> []
           | Some url \<Rightarrow>
               if url = [] then []
               else [\<lparr>cb_id = req_id request,
                      cb_status = Error,
                      cb_durationMs = int (date_now w AtDone) - int (date_now w AtStart),
                      cb_totalCostUsd = totalCostUsd (pr_usage ?r),
                      cb_inputTokens = inputTokens (pr_usage ?r),
                      cb_outputTokens = outputTokens (pr_usage ?r),
                      cb_numTurns = numTurns (pr_usage ?r),
                      cb_result = pr_output ?r,
                      cb_error =
                        Some (js ''Git push verification failed: branch '' @ [0x22]
                              @ js_string b @ [0x22] @ js '' has unpushed changes: ''
                              @ join_with (js '', '') (unpushedCommits v)),
                      cb_metadata = req_metadata request\<rparr>])"
    if s: "completes_with w config request dir messages"
      and t: "opt_prop (req_workspace request) (js ''type'') = Some (JStr (js ''git''))"
      and b: "opt_prop (req_workspace request) (js ''branch'') = Some b" "truthy b"
        "b \<noteq> JStr (js ''main'')"
      and m: "opt_prop (req_metadata request) (js ''expectBranchPush'') = Some (JBool True)"
      and v: "verifyGitPush w dir (js_string b) = Inr v" and np: "\<not> pushed v"
  proof -
    from t b m have wants: "wants_push_check request"
      by (simp add: cond truthy_opt_def)
    then have g: "gitWorkspace request = req_workspace request"
      by (rule wants_push_check_git)
    from execute_completed [OF s] obtain pre c where
      e: "?ev = pre @ fst (after_provider w request dir (date_now w AtStart) ?r)
                  @ [CleanupInvoked c]"
      and p: "payloads pre = []" by blast
    show ?thesis
      using wants v np b(1)
      by (simp add: e p payloads_append after_provider_def Let_def g js_string_opt_def
          push_error_text_def payloads_deliver split: option.splits)
  qed
  from only_if performed downgraded show ?thesis
    by blast
qed

lemma toString36_now: "toString36 1700000000000 = js ''loyw3v28''"
  by (simp add: toString36.simps digit_char_def)

lemma repoSlug_owner_repo: "repoSlug (js ''owner/repo'') = Inr (js ''owner--repo'')"
  by (simp add: repoSlug_def repo_rx_def)

lemma setup_feature:
  "setupWorkspace push_world (req_workspace feature_request) bridge_config =
     Inr \<lparr>cwd = js ''/tmp/agent-bridge/worktrees/wt-loyw3v28'',
          cleanup = CleanupWorktree (js ''/tmp/agent-bridge/repos/owner--repo.git'')
                      (js ''/tmp/agent-bridge/worktrees/wt-loyw3v28'')\<rparr>"
  using repoSlug_owner_repo toString36_now
  by (simp add: setupWorkspace_def feature_request_def setup_git_def ensureBareClone_def
      createWorktree_def injectOverlays_def js_string_opt_def
      exec_def worktree_add_def worktree_path_def join_def path_normalize_def
      normalizeString_def norm_step_def bridge_config_def
      Let_def push_world_def calm_world_def)

lemma verify_feature:
  "verifyGitPush push_world (js ''/tmp/agent-bridge/worktrees/wt-loyw3v28'') (js ''feature-x'') =
     Inr \<lparr>pushed = False, unpushedCommits = [js ''abc1234 add parser'']\<rparr>"
  by (simp add: verifyGitPush_def try_catch_def verifyGitPush_try_def exec_or_echo_def
      log_command_def output_lines_def split_lines_def push_world_def calm_world_def
      trim_def is_space_def Let_def)

lemma run_agent_messages:
  "ClaudeCodeProvider_run w agent_messages =
     \<lparr>pr_status = Success, pr_output = Some (js ''pushed feature-x''), pr_error = None,
      pr_usage = \<lparr>totalCostUsd = 1 / 4, inputTokens = 1200, outputTokens = 340,
                  numTurns = 7\<rparr>\<rparr>"
  by (simp add: ClaudeCodeProvider_run_def agent_messages_def on_message_def
      initial_result_def)

lemma completes_feature:
  "completes_with push_world bridge_config feature_request
     (js ''/tmp/agent-bridge/worktrees/wt-loyw3v28'') agent_messages"
  using setup_feature trim_do_it
  by (simp add: completes_with_def feature_request_def loadMcpServers_def getProvider_def
      initProviders_def providerName_def nullish_or_def bridge_config_def push_world_def
      calm_world_def Let_def)

theorem push_verification_gate_witness:
  "completes_with push_world bridge_config feature_request
     (js ''/tmp/agent-bridge/worktrees/wt-loyw3v28'') agent_messages
   \<and> opt_prop (req_workspace feature_request) (js ''type'') = Some (JStr (js ''git''))
   \<and> opt_prop (req_workspace feature_request) (js ''branch'') =
       Some (JStr (js ''feature-x''))
   \<and> opt_prop (req_metadata feature_request) (js ''expectBranchPush'') = Some (JBool True)
   \<and> verifyGitPush push_world (js ''/tmp/agent-bridge/worktrees/wt-loyw3v28'')
         (js ''feature-x'') =
       Inr \<lparr>pushed = False, unpushedCommits = [js ''abc1234 add parser'']\<rparr>
   \<and> push_checks (fst (executeRequest push_world bridge_config feature_request)) =
       [(js ''/tmp/agent-bridge/worktrees/wt-loyw3v28'', js ''feature-x'')]
   \<and> payloads (fst (executeRequest push_world bridge_config feature_request)) =
       [\<lparr>cb_id = js ''r4'',
         cb_status = Error,
         cb_durationMs = 0,
         cb_totalCostUsd = 1 / 4,
         cb_inputTokens = 1200,
         cb_outputTokens = 340,
         cb_numTurns = 7,
         cb_result = Some (js ''pushed feature-x''),
         cb_error =
           Some (js ''Git push verification failed: branch '' @ [0x22] @ js ''feature-x''
                 @ [0x22] @ js '' has unpushed changes: abc1234 add parser''),
         cb_metadata = Some (JObj [(js ''expectBranchPush'', JBool True)])\<rparr>]"
proof -
  let ?dir = "js ''/tmp/agent-bridge/worktrees/wt-loyw3v28''"
  let ?v = "\<lparr>pushed = False, unpushedCommits = [js ''abc1234 add parser'']\<rparr>"
  note inst = push_verification_gate
    [of push_world bridge_config feature_request ?dir agent_messages
        "JStr (js ''feature-x'')" ?v]
  have s: "completes_with push_world bridge_config feature_request ?dir agent_messages"
    by (rule completes_feature)
  have t: "opt_prop (req_workspace feature_request) (js ''type'') = Some (JStr (js ''git''))"
    by (simp add: feature_request_def)
  have b: "opt_prop (req_workspace feature_request) (js ''branch'') =
             Some (JStr (js ''feature-x''))"
    by (simp add: feature_request_def)
  have m: "opt_prop (req_metadata feature_request) (js ''expectBranchPush'') =
             Some (JBool True)"
    by (simp add: feature_request_def)
  have v: "verifyGitPush push_world ?dir (js ''feature-x'') = Inr ?v"
    by (rule verify_feature)
  have r: "req_callbackUrl feature_request = Some (js ''http://cb.example/done'')"
      "req_id feature_request = js ''r4''"
      "req_metadata feature_request = Some (JObj [(js ''expectBranchPush'', JBool True)])"
      "date_now push_world AtDone = 1700000000000"
      "date_now push_world AtStart = 1700000000000"
    by (simp_all add: feature_request_def push_world_def calm_world_def)
  have tr: "truthy (JStr (js ''feature-x''))" "JStr (js ''feature-x'') \<noteq> JStr (js ''main'')"
      "\<not> pushed ?v"
    by simp_all
  have cond: "opt_prop (req_workspace feature_request) (js ''type'') = Some (JStr (js ''git'')) \<and>
      truthy_opt (opt_prop (req_workspace feature_request) (js ''branch'')) \<and>
      opt_prop (req_workspace feature_request) (js ''branch'') \<noteq> Some (JStr (js ''main'')) \<and>
      opt_prop (req_metadata feature_request) (js ''expectBranchPush'') = Some (JBool True)"
    by (simp add: feature_request_def truthy_opt_def)
  from inst [THEN conjunct2, THEN conjunct1, THEN mp, OF s] cond
  have pc0: "push_checks (fst (executeRequest push_world bridge_config feature_request)) =
          [(?dir, js_string_opt (opt_prop (req_workspace feature_request) (js ''branch'')))]"
    by (simp only: simp_thms if_True)
  have pc: "push_checks (fst (executeRequest push_world bridge_config feature_request)) =
          [(?dir, js ''feature-x'')]"
    unfolding pc0 by (simp add: feature_request_def js_string_opt_def)
  have prem: "completes_with push_world bridge_config feature_request ?dir agent_messages \<and>
      opt_prop (req_workspace feature_request) (js ''type'') = Some (JStr (js ''git'')) \<and>
      opt_prop (req_workspace feature_request) (js ''branch'') =
        Some (JStr (js ''feature-x'')) \<and>
      truthy (JStr (js ''feature-x'')) \<and>
      JStr (js ''feature-x'') \<noteq> JStr (js ''main'') \<and>
      opt_prop (req_metadata feature_request) (js ''expectBranchPush'') = Some (JBool True) \<and>
      verifyGitPush push_world ?dir (js_string (JStr (js ''feature-x''))) = Inr ?v \<and>
      \<not> pushed ?v"
    using s t b m v tr by simp
  from inst [THEN conjunct2, THEN conjunct2, THEN mp, OF prem]
  have pl0: "payloads (fst (executeRequest push_world bridge_config feature_request)) =
          (case req_callbackUrl feature_request of
             None \<Rightarrow> []
           | Some url \<Rightarrow>
               if url = [] then []
               else [\<lparr>cb_id = req_id feature_request,
                      cb_status = Error,
                      cb_durationMs =
                        int (date_now push_world AtDone) - int (date_now push_world AtStart),
                      cb_totalCostUsd =
                        totalCostUsd (pr_usage (ClaudeCodeProvider_run push_world agent_messages)),
                      cb_inputTokens =
                        inputTokens (pr_usage (ClaudeCodeProvider_run push_world agent_messages)),
                      cb_outputTokens =
                        outputTokens (pr_usage (ClaudeCodeProvider_run push_world agent_messages)),
                      cb_numTurns =
                        numTurns (pr_usage (ClaudeCodeProvider_run push_world agent_messages)),
                      cb_result = pr_output (ClaudeCodeProvider_run push_world agent_messages),
                      cb_error =
                        Some (js ''Git push verification failed: branch '' @ [0x22]
                              @ js_string (JStr (js ''feature-x'')) @ [0x22]
                              @ js '' has unpushed changes: ''
                              @ join_with (js '', '') (unpushedCommits ?v)),
                      cb_metadata = req_metadata feature_request\<rparr>])"
    .
  have pl: "payloads (fst (executeRequest push_world bridge_config feature_request)) =
       [\<lparr>cb_id = js ''r4'',
         cb_status = Error,
         cb_durationMs = 0,
         cb_totalCostUsd = 1 / 4,
         cb_inputTokens = 1200,
         cb_outputTokens = 340,
         cb_numTurns = 7,
         cb_result = Some (js ''pushed feature-x''),
         cb_error =
           Some (js ''Git push verification failed: branch '' @ [0x22] @ js ''feature-x''
                 @ [0x22] @ js '' has unpushed changes: abc1234 add parser''),
         cb_metadata = Some (JObj [(js ''expectBranchPush'', JBool True)])\<rparr>]"
    unfolding pl0 using r run_agent_messages [of push_world] by simp
  from s t b m v pc pl show ?thesis
    by blast
qed

text \<open>
  C4 as stated fails: in a repository whose default branch is \<open>master\<close>, a request
  for its branch \<open>main\<close>, which is not the default branch, with \<open>expectBranchPush\<close>
  set, gets a result from the provider and the push is not verified.
\<close>

theorem push_check_skipped_for_branch_named_main:
  "head_branch trunk_store = js ''master''
   \<and> js ''main'' \<in> set (branches trunk_store)
   \<and> js ''main'' \<noteq> head_branch trunk_store
   \<and> opt_prop (req_workspace main_branch_request) (js ''type'') = Some (JStr (js ''git''))
   \<and> opt_prop (req_workspace main_branch_request) (js ''branch'') =
       Some (JStr (js ''main''))
   \<and> opt_prop (req_metadata main_branch_request) (js ''expectBranchPush'') =
       Some (JBool True)
   \<and> completes_with (store_world trunk_store calm_world) bridge_config main_branch_request
       (js ''/tmp/agent-bridge/worktrees/wt-loyw3v28'') []
   \<and> push_checks
       (fst (executeRequest (store_world trunk_store calm_world) bridge_config
               main_branch_request)) = []
   \<and> map cb_status
       (payloads
          (fst (executeRequest (store_world trunk_store calm_world) bridge_config
                  main_branch_request))) = [Success]"
proof -
  let ?w = "store_world trunk_store calm_world"
  let ?dir = "js ''/tmp/agent-bridge/worktrees/wt-loyw3v28''"
  have su: "setupWorkspace ?w (req_workspace main_branch_request) bridge_config =
     Inr \<lparr>cwd = ?dir,
          cleanup = CleanupWorktree (js ''/tmp/agent-bridge/repos/owner--repo.git'') ?dir\<rparr>"
    using repoSlug_owner_repo toString36_now
    by (simp add: setupWorkspace_def main_branch_request_def setup_git_def
        ensureBareClone_def createWorktree_def injectOverlays_def js_string_opt_def
        exec_def worktree_add_def worktree_path_def join_def path_normalize_def
        normalizeString_def norm_step_def bridge_config_def Let_def store_world_def
        trunk_store_def last_word_def calm_world_def)
  have s: "completes_with ?w bridge_config main_branch_request ?dir []"
    using su trim_do_it
    by (simp add: completes_with_def main_branch_request_def loadMcpServers_def
        getProvider_def initProviders_def providerName_def nullish_or_def bridge_config_def
        store_world_def calm_world_def Let_def)
  have nw: "\<not> wants_push_check main_branch_request"
    by (simp add: wants_push_check_def gitWorkspace_def main_branch_request_def)
  from execute_completed [OF s] obtain pre c where
    e: "fst (executeRequest ?w bridge_config main_branch_request) =
          pre @ fst (after_provider ?w main_branch_request ?dir (date_now ?w AtStart)
                       (ClaudeCodeProvider_run ?w []))
            @ [CleanupInvoked c]"
    and p: "push_checks pre = []" "payloads pre = []" by blast
  have pc: "push_checks (fst (executeRequest ?w bridge_config main_branch_request)) = []"
    using nw by (simp add: e p push_checks_append push_checks_after_provider)
  have url: "req_callbackUrl main_branch_request = Some (js ''http://cb.example/done'')"
    by (simp add: main_branch_request_def)
  have pl: "map cb_status
              (payloads (fst (executeRequest ?w bridge_config main_branch_request))) =
              [Success]"
    using nw url
    by (simp add: e p payloads_append after_provider_def Let_def payloads_deliver)
  have facts: "head_branch trunk_store = js ''master''"
    "js ''main'' \<in> set (branches trunk_store)"
    "js ''main'' \<noteq> head_branch trunk_store"
    "opt_prop (req_workspace main_branch_request) (js ''type'') = Some (JStr (js ''git''))"
    "opt_prop (req_workspace main_branch_request) (js ''branch'') = Some (JStr (js ''main''))"
    "opt_prop (req_metadata main_branch_request) (js ''expectBranchPush'') = Some (JBool True)"
    by (simp_all add: trunk_store_def main_branch_request_def)
  from facts s pc pl show ?thesis
    by blast
qed

subsection \<open>The fallback of worktree creation\<close>

lemma last_word_append:
  assumes "0x20 \<notin> set b"
  shows "last_word (xs @ 0x20 # b) = b"
proof -
  have "takeWhile (\<lambda>c. c \<noteq> 0x20) (rev b @ 0x20 # rev xs) =
          rev b @ takeWhile (\<lambda>c. c \<noteq> 0x20) (0x20 # rev xs)"
    by (rule takeWhile_append2) (use assms in auto)
  then show ?thesis
    by (simp add: last_word_def)
qed

lemma last_word_worktree_add:
  "0x20 \<notin> set b \<Longrightarrow> last_word (worktree_add path b) = b"
  using last_word_append [of b "(js ''git worktree add --detach '') @ path"]
  by (simp add: worktree_add_def)

lemma prefix_worktree_add:
  "prefix (js ''git worktree add --detach '') (worktree_add path b)"
  by (simp add: worktree_add_def)

lemma exec_store_world_add:
  "0x20 \<notin> set b \<Longrightarrow>
   exec (store_world st w) (worktree_add path b) dir =
     (if b \<in> set (branches st) then Inr []
      else Inl (js ''Command failed: '' @ worktree_add path b @ [0x0A]
                @ js ''fatal: invalid reference: '' @ b @ [0x0A]))"
  using last_word_worktree_add [of b path] prefix_worktree_add [of path b]
  by (simp add: exec_def store_world_def)

lemma exec_store_world_prune:
  "exec (store_world st w) (js ''git worktree prune'') dir = exec w (js ''git worktree prune'') dir"
  by (simp add: exec_def store_world_def)

text \<open>
  C5 (as amended). When the requested branch does not exist in the bare store, and the
  worktrees directory can be made and the prune succeeds, \<open>createWorktree\<close> logs the
  fallback and runs \<open>git worktree add --detach\<close> again with the branch named \<open>main\<close>,
  whatever the default branch of the repository is. It succeeds exactly when the store
  has a branch \<open>main\<close>; otherwise it throws the error of the second command.
\<close>

theorem missing_branch_falls_back_to_main:
  assumes "b \<notin> set (branches st)" and "b \<noteq> []" and "0x20 \<notin> set b"
    and "mkdirSync w worktreesDir0 = None"
    and "exec w (js ''git worktree prune'') (Some barePath) = Inr out"
  shows "createWorktree (store_world st w) barePath worktreesDir0 (Some (JStr b)) =
           ([js ''[Workspace] Creating worktree at '' @ worktree_path w worktreesDir0
               @ js '' (branch: '' @ b @ js '')...'',
             js ''[Workspace] Branch '' @ [0x22] @ b @ [0x22]
               @ js '' not found, creating from main (detached)...''],
            if js ''main'' \<in> set (branches st)
            then Inr (worktree_path w worktreesDir0,
                      CleanupWorktree barePath (worktree_path w worktreesDir0))
            else Inl (js ''Command failed: git worktree add --detach ''
                      @ worktree_path w worktreesDir0 @ js '' main'' @ [0x0A]
                      @ js ''fatal: invalid reference: main'' @ [0x0A]))"
proof -
  let ?w = "store_world st w"
  let ?path = "worktree_path w worktreesDir0"
  have m: "mkdirSync ?w worktreesDir0 = None"
    using assms(4) by (simp add: store_world_def)
  have d: "worktree_path ?w worktreesDir0 = ?path"
    by (simp add: worktree_path_def store_world_def)
  have p: "exec ?w (js ''git worktree prune'') (Some barePath) = Inr out"
    using assms(5) exec_store_world_prune [of st w "Some barePath"] by simp
  have a1: "exec ?w (worktree_add ?path b) (Some barePath) =
              Inl (js ''Command failed: '' @ worktree_add ?path b @ [0x0A]
                   @ js ''fatal: invalid reference: '' @ b @ [0x0A])"
    using assms(1,3) by (simp add: exec_store_world_add)
  have a2: "exec ?w (worktree_add ?path (js ''main'')) (Some barePath) =
            (if js ''main'' \<in> set (branches st) then Inr []
             else Inl (js ''Command failed: '' @ worktree_add ?path (js ''main'') @ [0x0A]
                       @ js ''fatal: invalid reference: '' @ js ''main'' @ [0x0A]))"
    by (rule exec_store_world_add) simp
  have t: "js ''Command failed: '' @ worktree_add ?path (js ''main'') @ [0x0A]
             @ js ''fatal: invalid reference: '' @ js ''main'' @ [0x0A] =
           js ''Command failed: git worktree add --detach '' @ ?path @ js '' main''
             @ [0x0A] @ js ''fatal: invalid reference: main'' @ [0x0A]"
    by (simp add: worktree_add_def)
  show ?thesis
    unfolding createWorktree_def Let_def d
    using m p a1 a2 [unfolded t]
    by (simp add: creating_log_def fallback_log_def)
qed

lemma worktree_path_calm:
  "worktree_path calm_world (js ''/tmp/agent-bridge/worktrees'') =
     js ''/tmp/agent-bridge/worktrees/wt-loyw3v28''"
  using toString36_now
  by (simp add: worktree_path_def calm_world_def join_def path_normalize_def
      normalizeString_def norm_step_def)

theorem missing_branch_falls_back_to_main_witness:
  "js ''feature-x'' \<notin> set (branches main_store) \<and>
   createWorktree (store_world main_store calm_world)
     (js ''/tmp/agent-bridge/repos/owner--repo.git'') (js ''/tmp/agent-bridge/worktrees'')
     (Some (JStr (js ''feature-x''))) =
     ([js ''[Workspace] Creating worktree at /tmp/agent-bridge/worktrees/wt-loyw3v28 (branch: feature-x)...'',
       js ''[Workspace] Branch '' @ [0x22] @ js ''feature-x'' @ [0x22]
         @ js '' not found, creating from main (detached)...''],
      Inr (js ''/tmp/agent-bridge/worktrees/wt-loyw3v28'',
           CleanupWorktree (js ''/tmp/agent-bridge/repos/owner--repo.git'')
             (js ''/tmp/agent-bridge/worktrees/wt-loyw3v28'')))"
proof -
  have 1: "js ''feature-x'' \<notin> set (branches main_store)"
    by (simp add: main_store_def)
  have 2: "mkdirSync calm_world (js ''/tmp/agent-bridge/worktrees'') = None"
    by (simp add: calm_world_def)
  have 3: "exec calm_world (js ''git worktree prune'')
             (Some (js ''/tmp/agent-bridge/repos/owner--repo.git'')) = Inr []"
    by (simp add: exec_def calm_world_def)
  have 4: "js ''main'' \<in> set (branches main_store)"
    by (simp add: main_store_def)
  from missing_branch_falls_back_to_main [OF 1 _ _ 2 3] 1 4 worktree_path_calm
  show ?thesis
    by simp
qed

text \<open>
  C5 as stated fails: in a store whose default branch is \<open>master\<close> and that has no
  branch \<open>main\<close>, the creation of a worktree for the missing branch \<open>feature-x\<close> does
  not succeed.
\<close>

theorem fallback_fails_without_main:
  "js ''feature-x'' \<notin> set (branches master_store) \<and>
   head_branch master_store = js ''master'' \<and>
   head_branch master_store \<in> set (branches master_store) \<and>
   snd (createWorktree (store_world master_store calm_world)
     (js ''/tmp/agent-bridge/repos/owner--repo.git'') (js ''/tmp/agent-bridge/worktrees'')
     (Some (JStr (js ''feature-x'')))) =
     Inl (js ''Command failed: git worktree add --detach /tmp/agent-bridge/worktrees/wt-loyw3v28 main''
          @ [0x0A] @ js ''fatal: invalid reference: main'' @ [0x0A])"
  using toString36_now
  by (simp add: createWorktree_def Let_def store_world_def calm_world_def master_store_def
      exec_def worktree_add_def worktree_path_def last_word_def join_def path_normalize_def
      normalizeString_def norm_step_def)

subsection \<open>The path of a worktree\<close>

text \<open>
  C8 (the code at a failing input). Two worktree creations that read the same millisecond
  from the clock, here for two repositories, are given the same path: the identifier is
  the clock reading in base 36 and nothing else.
\<close>

theorem same_millisecond_same_worktree_path:
  "date_now calm_world AtWorktree = 1700000000000 \<and>
   snd (createWorktree calm_world (js ''/tmp/agent-bridge/repos/owner--repo.git'')
          (js ''/tmp/agent-bridge/worktrees'') (Some (JStr (js ''feature-a''))))
     = Inr (js ''/tmp/agent-bridge/worktrees/wt-loyw3v28'',
            CleanupWorktree (js ''/tmp/agent-bridge/repos/owner--repo.git'')
              (js ''/tmp/agent-bridge/worktrees/wt-loyw3v28'')) \<and>
   snd (createWorktree calm_world (js ''/tmp/agent-bridge/repos/other--lib.git'')
          (js ''/tmp/agent-bridge/worktrees'') (Some (JStr (js ''feature-b''))))
     = Inr (js ''/tmp/agent-bridge/worktrees/wt-loyw3v28'',
            CleanupWorktree (js ''/tmp/agent-bridge/repos/other--lib.git'')
              (js ''/tmp/agent-bridge/worktrees/wt-loyw3v28''))"
  using toString36_now
  by (simp add: createWorktree_def Let_def calm_world_def exec_def worktree_add_def
      worktree_path_def join_def path_normalize_def normalizeString_def norm_step_def)

subsection \<open>The outcomes of the push verification\<close>

text \<open>
  The outcomes of \<open>verifyGitPush\<close> by what the two commands answer. The lines that
  \<open>git log\<close> prints are returned as the unpushed commits; with no such line, an empty
  answer of \<open>git ls-remote\<close> is the branch missing on the remote.
\<close>

lemma unpushed_commits_are_listed:
  assumes "exec_or_echo w (log_command branch) (Some dir) = Inr logOutput"
    and "output_lines logOutput \<noteq> []"
  shows "verifyGitPush w dir branch =
           Inr \<lparr>pushed = False, unpushedCommits = output_lines logOutput\<rparr>"
  using assms by (simp add: verifyGitPush_def verifyGitPush_try_def try_catch_def)

lemma missing_remote_branch_is_reported:
  assumes "exec_or_echo w (log_command branch) (Some dir) = Inr logOutput"
    and "output_lines logOutput = []"
    and "exec w (ls_remote_command branch) (Some dir) = Inr remoteRef"
    and "trim remoteRef = []"
  shows "verifyGitPush w dir branch =
           Inr \<lparr>pushed = False, unpushedCommits = [js ''(branch not on remote)'']\<rparr>"
  using assms by (simp add: verifyGitPush_def verifyGitPush_try_def try_catch_def)

text \<open>
  A failure of \<open>git ls-remote\<close>, or of the start of either command, is caught and
  reported as the verification error.
\<close>

lemma ls_remote_failure_is_verification_error:
  assumes "exec_or_echo w (log_command branch) (Some dir) = Inr logOutput"
    and "output_lines logOutput = []"
    and "exec w (ls_remote_command branch) (Some dir) = Inl e"
  shows "verifyGitPush w dir branch =
           Inr \<lparr>pushed = False, unpushedCommits = [js ''(verification error)'']\<rparr>"
  using assms by (simp add: verifyGitPush_def verifyGitPush_try_def try_catch_def)

lemma spawn_failure_is_verification_error:
  assumes "run w (log_command branch) (Some dir) = SpawnError e"
  shows "verifyGitPush w dir branch =
           Inr \<lparr>pushed = False, unpushedCommits = [js ''(verification error)'']\<rparr>"
  using assms
  by (simp add: verifyGitPush_def verifyGitPush_try_def try_catch_def exec_or_echo_def)

text \<open>
  A failure of \<open>git log\<close> itself is not: whatever its exit code, when it prints
  nothing the outcome is that of \<open>git ls-remote\<close>.
\<close>

lemma git_log_failure_is_swallowed:
  assumes "run w (log_command branch) (Some dir) = Exit code [] err"
    and "code \<noteq> 0"
    and "exec w (ls_remote_command branch) (Some dir) = Inr remoteRef"
    and "trim remoteRef \<noteq> []"
  shows "verifyGitPush w dir branch = Inr \<lparr>pushed = True, unpushedCommits = []\<rparr>"
  using assms
  by (simp add: verifyGitPush_def verifyGitPush_try_def try_catch_def exec_or_echo_def
      output_lines_def split_lines_def trim_def is_space_def)

text \<open>
  C6 (the code at a failing input). In the worktree of a bare clone there is no ref
  \<open>origin/feature-x\<close>, so \<open>git log --oneline origin/feature-x..HEAD\<close> fails with code
  128. The failure is not reported as the verification error: the shell turns it into an
  empty line, the function goes on to \<open>git ls-remote\<close>, finds the branch on the remote
  and returns \<open>{pushed: true, unpushedCommits: []}\<close>.
\<close>

theorem git_log_failure_reported_as_pushed:
  "run log_fails_world (js ''git log --oneline origin/feature-x..HEAD'')
     (Some (js ''/tmp/agent-bridge/worktrees/wt-loyw3v28'')) =
     Exit 128 []
       (js ''fatal: ambiguous argument '' @ [0x27] @ js ''origin/feature-x..HEAD'' @ [0x27]
        @ js '': unknown revision or path not in the working tree.'' @ [0x0A])
   \<and> verifyGitPush log_fails_world (js ''/tmp/agent-bridge/worktrees/wt-loyw3v28'')
       (js ''feature-x'') =
     Inr \<lparr>pushed = True, unpushedCommits = []\<rparr>"
  by (simp add: verifyGitPush_def try_catch_def verifyGitPush_try_def exec_or_echo_def
      exec_def log_command_def ls_remote_command_def output_lines_def split_lines_def
      log_fails_world_def calm_world_def trim_def is_space_def Let_def)

subsection \<open>Admission of a workspace without a type\<close>

lemma setup_typeless:
  "map_of ws (js ''type'') = None \<Longrightarrow>
   setupWorkspace w (Some (JObj ws)) config = Inl (js ''Unsupported workspace type: undefined'')"
  by (simp add: setupWorkspace_def js_string_opt_def)

lemma execute_setup_fails:
  assumes "trim (req_prompt request) \<noteq> []"
    and "setupWorkspace w (req_workspace request) config = Inl e"
  shows "fst (executeRequest w config request) =
           SetupWorkspaceCalled (req_workspace request)
             # deliver request (buildErrorPayload w request e (date_now w AtStart))"
proof -
  from assms(1) have "req_prompt request \<noteq> []"
    by (auto simp: trim_def)
  with assms show ?thesis
    by (simp add: executeRequest_def try_block_def Let_def)
qed

lemma workspace_reply_text:
  "workspace_reply =
     Reply 400 [(js ''error'',
                 JStr (js ''Invalid workspace.type: must be one of git, tempdir''))]"
  by (simp add: workspace_reply_def VALID_WORKSPACE_TYPES_def)

lemma workspace_reply_cases:
  "post_execute config auth rawBody uuid = Inr (workspace_reply, sub) \<Longrightarrow>
   \<exists>data. rawBody = Parsed data \<and> workspace_type_invalid data"
  by (auto simp: post_execute_def Let_def workspace_reply_def prompt_reply_def
      accepted_reply_def VALID_WORKSPACE_TYPES_def
      split: if_splits body.splits sum.splits bool.splits)

lemma workspace_type_invalidD:
  "workspace_type_invalid data \<Longrightarrow>
   \<exists>t. opt_prop (field_of data (js ''workspace'')) (js ''type'') = Some t \<and>
       t \<noteq> JStr (js ''git'') \<and> t \<noteq> JStr (js ''tempdir'')"
  by (auto simp: workspace_type_invalid_def VALID_WORKSPACE_TYPES_def
      split: option.splits json.splits)

text \<open>
  C10. The admission answers \<open>400 Invalid workspace.type: must be one of git, tempdir\<close>
  only when the body's workspace has a \<open>type\<close> that is neither \<open>"git"\<close> nor
  \<open>"tempdir"\<close>, and an authorised request with a prompt whose workspace is an object
  with such a \<open>type\<close> gets that answer. An authorised request with a prompt whose
  workspace is an object without a \<open>type\<close> is answered with status 202 and
  \<open>{id, status: "accepted"}\<close> and submitted as it is; its execution calls
  \<open>setupWorkspace\<close>, which throws \<open>Unsupported workspace type: undefined\<close>, so the run
  sends the error payload with that text (if a callback URL is given) and calls no
  disposal closure.
\<close>

theorem typeless_workspace_admitted:
  "(post_execute config auth rawBody uuid =
      Inr (Reply 400
             [(js ''error'',
               JStr (js ''Invalid workspace.type: must be one of git, tempdir''))], sub) \<longrightarrow>
      (\<exists>data t. rawBody = Parsed data \<and>
         opt_prop (field_of data (js ''workspace'')) (js ''type'') = Some t \<and>
         t \<noteq> JStr (js ''git'') \<and> t \<noteq> JStr (js ''tempdir'')))
   \<and> (authorized config auth = Inr True \<and>
        field_of data (js ''prompt'') = Some (JStr p) \<and> trim p \<noteq> [] \<and>
        field_of data (js ''workspace'') = Some (JObj ws) \<and>
        map_of ws (js ''type'') = Some t \<and>
        t \<noteq> JStr (js ''git'') \<and> t \<noteq> JStr (js ''tempdir'') \<longrightarrow>
        post_execute config auth (Parsed data) uuid =
          Inr (Reply 400
                 [(js ''error'',
                   JStr (js ''Invalid workspace.type: must be one of git, tempdir''))],
               None))
   \<and> (authorized config auth = Inr True \<and>
        field_of data (js ''prompt'') = Some (JStr p) \<and> trim p \<noteq> [] \<and>
        field_of data (js ''workspace'') = Some (JObj ws) \<and>
        map_of ws (js ''type'') = None \<and>
        request =
          \<lparr>req_id = (case field_of data (js ''id'') of Some (JStr i) \<Rightarrow> i | _ \<Rightarrow> uuid),
           req_prompt = p,
           req_callbackUrl = (case field_of data (js ''callbackUrl'') of
                                Some (JStr u) \<Rightarrow> Some u
                              | _ \<Rightarrow> None),
           req_workspace = Some (JObj ws),
           req_agent = field_of data (js ''agent''),
           req_metadata = (case field_of data (js ''metadata'') of
                             Some (JObj m) \<Rightarrow> Some (JObj m)
                           | _ \<Rightarrow> None)\<rparr> \<longrightarrow>
        post_execute config auth (Parsed data) uuid =
          Inr (Reply 202 [(js ''id'', JStr (req_id request)),
                          (js ''status'', JStr (js ''accepted''))],
               Some request)
        \<and> setupWorkspace w (req_workspace request) bridge =
            Inl (js ''Unsupported workspace type: undefined'')
        \<and> setups (fst (executeRequest w bridge request)) = [Some (JObj ws)]
        \<and> payloads (fst (executeRequest w bridge request)) =
            (case req_callbackUrl request of
               None \<Rightarrow> []
             | Some url \<Rightarrow>
                 if url = [] then []
                 else [\<lparr>cb_id = req_id request,
                        cb_status = Error,
                        cb_durationMs =
                          int (date_now w AtErrorPayload) - int (date_now w AtStart),
                        cb_totalCostUsd = 0,
                        cb_inputTokens = 0,
                        cb_outputTokens = 0,
                        cb_numTurns = 0,
                        cb_result = None,
                        cb_error = Some (js ''Unsupported workspace type: undefined''),
                        cb_metadata = req_metadata request\<rparr>])
        \<and> cleanups (fst (executeRequest w bridge request)) = [])"
proof -
  let ?rejection = "Reply 400
      [(js ''error'', JStr (js ''Invalid workspace.type: must be one of git, tempdir''))]"
  have only_if: "\<exists>data t. rawBody = Parsed data \<and>
         opt_prop (field_of data (js ''workspace'')) (js ''type'') = Some t \<and>
         t \<noteq> JStr (js ''git'') \<and> t \<noteq> JStr (js ''tempdir'')"
    if "post_execute config auth rawBody uuid = Inr (?rejection, sub)"
    using workspace_reply_cases [of config auth rawBody uuid sub] that
      workspace_type_invalidD
    unfolding workspace_reply_text by blast
  have pm: "\<not> prompt_missing data" "data \<noteq> JNull"
    if "field_of data (js ''prompt'') = Some (JStr p)" "trim p \<noteq> []"
    using that by (auto simp: prompt_missing_def trim_def)
  have rejected: "post_execute config auth (Parsed data) uuid = Inr (?rejection, None)"
    if au: "authorized config auth = Inr True"
      and p: "field_of data (js ''prompt'') = Some (JStr p)" "trim p \<noteq> []"
      and ws: "field_of data (js ''workspace'') = Some (JObj ws)"
      and ty: "map_of ws (js ''type'') = Some t"
        "t \<noteq> JStr (js ''git'')" "t \<noteq> JStr (js ''tempdir'')"
  proof -
    have iv: "workspace_type_invalid data"
      using ws ty by (simp add: workspace_type_invalid_def VALID_WORKSPACE_TYPES_def)
    show ?thesis
      using au pm [OF p] iv
      by (simp add: post_execute_def workspace_reply_text)
  qed
  have admitted:
    "post_execute config auth (Parsed data) uuid =
          Inr (Reply 202 [(js ''id'', JStr (req_id request)),
                          (js ''status'', JStr (js ''accepted''))],
               Some request)
        \<and> setupWorkspace w (req_workspace request) bridge =
            Inl (js ''Unsupported workspace type: undefined'')
        \<and> setups (fst (executeRequest w bridge request)) = [Some (JObj ws)]
        \<and> payloads (fst (executeRequest w bridge request)) =
            (case req_callbackUrl request of
               None \<Rightarrow> []
             | Some url \<Rightarrow>
                 if url = [] then []
                 else [\<lparr>cb_id = req_id request,
                        cb_status = Error,
                        cb_durationMs =
                          int (date_now w AtErrorPayload) - int (date_now w AtStart),
                        cb_totalCostUsd = 0,
                        cb_inputTokens = 0,
                        cb_outputTokens = 0,
                        cb_numTurns = 0,
                        cb_result = None,
                        cb_error = Some (js ''Unsupported workspace type: undefined''),
                        cb_metadata = req_metadata request\<rparr>])
        \<and> cleanups (fst (executeRequest w bridge request)) = []"
    if au: "authorized config auth = Inr True"
      and p: "field_of data (js ''prompt'') = Some (JStr p)" "trim p \<noteq> []"
      and ws: "field_of data (js ''workspace'') = Some (JObj ws)"
      and ty: "map_of ws (js ''type'') = None"
      and rq: "request =
          \<lparr>req_id = (case field_of data (js ''id'') of Some (JStr i) \<Rightarrow> i | _ \<Rightarrow> uuid),
           req_prompt = p,
           req_callbackUrl = (case field_of data (js ''callbackUrl'') of
                                Some (JStr u) \<Rightarrow> Some u
                              | _ \<Rightarrow> None),
           req_workspace = Some (JObj ws),
           req_agent = field_of data (js ''agent''),
           req_metadata = (case field_of data (js ''metadata'') of
                             Some (JObj m) \<Rightarrow> Some (JObj m)
                           | _ \<Rightarrow> None)\<rparr>"
  proof -
    have br: "build_request data uuid = request"
      using p(1) ws unfolding rq by (simp add: build_request_def)
    have nv: "\<not> workspace_type_invalid data"
      using ws ty by (simp add: workspace_type_invalid_def)
    have 1: "post_execute config auth (Parsed data) uuid =
               Inr (Reply 202 [(js ''id'', JStr (req_id request)),
                               (js ''status'', JStr (js ''accepted''))],
                    Some request)"
      using au pm [OF p] nv
      by (simp add: post_execute_def Let_def br accepted_reply_def)
    have 2: "req_workspace request = Some (JObj ws)" "req_prompt request = p"
      unfolding rq by simp_all
    have 3: "setupWorkspace w (req_workspace request) bridge =
               Inl (js ''Unsupported workspace type: undefined'')"
      by (simp only: 2 setup_typeless [OF ty])
    have tp: "trim (req_prompt request) \<noteq> []"
      using p(2) by (simp add: 2)
    note ev = execute_setup_fails [OF tp 3]
    have 4: "setups (fst (executeRequest w bridge request)) = [Some (JObj ws)]"
      by (simp add: ev 2 setups_deliver)
    have 5: "cleanups (fst (executeRequest w bridge request)) = []"
      by (simp add: ev cleanups_deliver)
    have 6: "payloads (fst (executeRequest w bridge request)) =
            (case req_callbackUrl request of
               None \<Rightarrow> []
             | Some url \<Rightarrow>
                 if url = [] then []
                 else [\<lparr>cb_id = req_id request,
                        cb_status = Error,
                        cb_durationMs =
                          int (date_now w AtErrorPayload) - int (date_now w AtStart),
                        cb_totalCostUsd = 0,
                        cb_inputTokens = 0,
                        cb_outputTokens = 0,
                        cb_numTurns = 0,
                        cb_result = None,
                        cb_error = Some (js ''Unsupported workspace type: undefined''),
                        cb_metadata = req_metadata request\<rparr>])"
      by (simp add: ev deliver_def buildErrorPayload_def split: option.splits)
    from 1 3 4 5 6 show ?thesis
      by blast
  qed
  from only_if rejected admitted show ?thesis
    by blast
qed

lemma authorized_open_http: "authorized open_http (Some (js ''Bearer s3cret'')) = Inr True"
  by (simp add: authorized_def open_http_def verifyBearerToken_def timingSafeEqual_def
      utf8_code_point_def Let_def)

theorem typeless_workspace_admitted_witness:
  "authorized open_http (Some (js ''Bearer s3cret'')) = Inr True
   \<and> field_of typeless_body (js ''prompt'') = Some (JStr (js ''do it''))
   \<and> trim (js ''do it'') = js ''do it''
   \<and> field_of typeless_body (js ''workspace'') =
       Some (JObj [(js ''repo'', JStr (js ''owner/repo''))])
   \<and> post_execute open_http (Some (js ''Bearer s3cret'')) (Parsed typeless_body)
         (js ''uuid-1'') =
       Inr (Reply 202 [(js ''id'', JStr (js ''r5'')), (js ''status'', JStr (js ''accepted''))],
            Some \<lparr>req_id = js ''r5'', req_prompt = js ''do it'',
                   req_callbackUrl = Some (js ''http://cb.example/done''),
                   req_workspace = Some (JObj [(js ''repo'', JStr (js ''owner/repo''))]),
                   req_agent = None, req_metadata = None\<rparr>)
   \<and> payloads
         (fst (executeRequest calm_world bridge_config
                 \<lparr>req_id = js ''r5'', req_prompt = js ''do it'',
                   req_callbackUrl = Some (js ''http://cb.example/done''),
                   req_workspace = Some (JObj [(js ''repo'', JStr (js ''owner/repo''))]),
                   req_agent = None, req_metadata = None\<rparr>)) =
       [\<lparr>cb_id = js ''r5'', cb_status = Error, cb_durationMs = 0, cb_totalCostUsd = 0,
         cb_inputTokens = 0, cb_outputTokens = 0, cb_numTurns = 0, cb_result = None,
         cb_error = Some (js ''Unsupported workspace type: undefined''),
         cb_metadata = None\<rparr>]
   \<and> cleanups
         (fst (executeRequest calm_world bridge_config
                 \<lparr>req_id = js ''r5'', req_prompt = js ''do it'',
                   req_callbackUrl = Some (js ''http://cb.example/done''),
                   req_workspace = Some (JObj [(js ''repo'', JStr (js ''owner/repo''))]),
                   req_agent = None, req_metadata = None\<rparr>)) = []
   \<and> field_of docker_body (js ''workspace'') =
       Some (JObj [(js ''type'', JStr (js ''docker''))])
   \<and> post_execute open_http (Some (js ''Bearer s3cret'')) (Parsed docker_body)
         (js ''uuid-1'') =
       Inr (Reply 400
              [(js ''error'',
                JStr (js ''Invalid workspace.type: must be one of git, tempdir''))], None)"
proof -
  let ?auth = "Some (js ''Bearer s3cret'')"
  let ?ws = "[(js ''repo'', JStr (js ''owner/repo''))]"
  let ?request = "\<lparr>req_id = js ''r5'', req_prompt = js ''do it'',
                   req_callbackUrl = Some (js ''http://cb.example/done''),
                   req_workspace = Some (JObj ?ws),
                   req_agent = None, req_metadata = None\<rparr>"
  have au: "authorized open_http ?auth = Inr True"
    by (rule authorized_open_http)
  have p: "field_of typeless_body (js ''prompt'') = Some (JStr (js ''do it''))"
    by (simp add: typeless_body_def)
  have tr: "trim (js ''do it'') = js ''do it''"
    by (rule trim_do_it)
  have tn: "trim (js ''do it'') \<noteq> []"
    using trim_do_it by simp
  have ws: "field_of typeless_body (js ''workspace'') = Some (JObj ?ws)"
    by (simp add: typeless_body_def)
  have ty: "map_of ?ws (js ''type'') = None"
    by simp
  have rq: "?request =
          \<lparr>req_id = (case field_of typeless_body (js ''id'') of
                       Some (JStr i) \<Rightarrow> i | _ \<Rightarrow> js ''uuid-1''),
           req_prompt = js ''do it'',
           req_callbackUrl = (case field_of typeless_body (js ''callbackUrl'') of
                                Some (JStr u) \<Rightarrow> Some u
                              | _ \<Rightarrow> None),
           req_workspace = Some (JObj ?ws),
           req_agent = field_of typeless_body (js ''agent''),
           req_metadata = (case field_of typeless_body (js ''metadata'') of
                             Some (JObj m) \<Rightarrow> Some (JObj m)
                           | _ \<Rightarrow> None)\<rparr>"
    by (simp add: typeless_body_def)
  have prem: "authorized open_http ?auth = Inr True \<and>
        field_of typeless_body (js ''prompt'') = Some (JStr (js ''do it'')) \<and>
        trim (js ''do it'') \<noteq> [] \<and>
        field_of typeless_body (js ''workspace'') = Some (JObj ?ws) \<and>
        map_of ?ws (js ''type'') = None \<and>
        ?request =
          \<lparr>req_id = (case field_of typeless_body (js ''id'') of
                       Some (JStr i) \<Rightarrow> i | _ \<Rightarrow> js ''uuid-1''),
           req_prompt = js ''do it'',
           req_callbackUrl = (case field_of typeless_body (js ''callbackUrl'') of
                                Some (JStr u) \<Rightarrow> Some u
                              | _ \<Rightarrow> None),
           req_workspace = Some (JObj ?ws),
           req_agent = field_of typeless_body (js ''agent''),
           req_metadata = (case field_of typeless_body (js ''metadata'') of
                             Some (JObj m) \<Rightarrow> Some (JObj m)
                           | _ \<Rightarrow> None)\<rparr>"
    using au p tn ws ty rq by blast
  note adm = typeless_workspace_admitted
    [of open_http ?auth _ "js ''uuid-1''" _ typeless_body "js ''do it''" ?ws _ ?request
        calm_world bridge_config,
     THEN conjunct2, THEN conjunct2, THEN mp, OF prem]
  have acc: "post_execute open_http ?auth (Parsed typeless_body) (js ''uuid-1'') =
       Inr (Reply 202 [(js ''id'', JStr (js ''r5'')), (js ''status'', JStr (js ''accepted''))],
            Some ?request)"
    using adm [THEN conjunct1] by simp
  have pl: "payloads (fst (executeRequest calm_world bridge_config ?request)) =
       [\<lparr>cb_id = js ''r5'', cb_status = Error, cb_durationMs = 0, cb_totalCostUsd = 0,
         cb_inputTokens = 0, cb_outputTokens = 0, cb_numTurns = 0, cb_result = None,
         cb_error = Some (js ''Unsupported workspace type: undefined''),
         cb_metadata = None\<rparr>]"
    using adm [THEN conjunct2, THEN conjunct2, THEN conjunct2, THEN conjunct1]
    by (simp add: calm_world_def)
  have cl: "cleanups (fst (executeRequest calm_world bridge_config ?request)) = []"
    using adm [THEN conjunct2, THEN conjunct2, THEN conjunct2, THEN conjunct2] .
  have dp: "field_of docker_body (js ''prompt'') = Some (JStr (js ''do it''))"
    by (simp add: docker_body_def)
  have dw: "field_of docker_body (js ''workspace'') =
              Some (JObj [(js ''type'', JStr (js ''docker''))])"
    by (simp add: docker_body_def)
  have dt: "map_of [(js ''type'', JStr (js ''docker''))] (js ''type'') =
              Some (JStr (js ''docker''))"
      "JStr (js ''docker'') \<noteq> JStr (js ''git'')"
      "JStr (js ''docker'') \<noteq> JStr (js ''tempdir'')"
    by simp_all
  have dprem: "authorized open_http ?auth = Inr True \<and>
        field_of docker_body (js ''prompt'') = Some (JStr (js ''do it'')) \<and>
        trim (js ''do it'') \<noteq> [] \<and>
        field_of docker_body (js ''workspace'') =
          Some (JObj [(js ''type'', JStr (js ''docker''))]) \<and>
        map_of [(js ''type'', JStr (js ''docker''))] (js ''type'') =
          Some (JStr (js ''docker'')) \<and>
        JStr (js ''docker'') \<noteq> JStr (js ''git'') \<and>
        JStr (js ''docker'') \<noteq> JStr (js ''tempdir'')"
    using au dp tn dw dt by blast
  note rej = typeless_workspace_admitted
    [of open_http ?auth _ "js ''uuid-1''" _ docker_body "js ''do it''"
        "[(js ''type'', JStr (js ''docker''))]" "JStr (js ''docker'')",
     THEN conjunct2, THEN conjunct1, THEN mp, OF dprem]
  from au p tr ws acc pl cl dw rej show ?thesis
    by blast
qed

subsection \<open>The bound of the queue\<close>

lemma submit_bound:
  "active q \<le> maxConcurrent q \<Longrightarrow>
   active (snd (submit r q)) \<le> maxConcurrent q \<and>
   maxConcurrent (snd (submit r q)) = maxConcurrent q"
  by (simp add: submit_def start_def)

lemma complete_bound:
  "active q \<le> maxConcurrent q \<Longrightarrow> 0 < active q \<Longrightarrow>
   active (snd (on_complete q)) \<le> maxConcurrent q \<and>
   maxConcurrent (snd (on_complete q)) = maxConcurrent q"
  by (auto simp: on_complete_def start_def Let_def split: list.splits)

lemma queue_states_bound:
  "active q \<le> maxConcurrent q \<Longrightarrow> queue_states q ops = Some qs \<Longrightarrow>
   \<forall>q' \<in> set qs. active q' \<le> maxConcurrent q \<and> maxConcurrent q' = maxConcurrent q"
proof (induction q ops arbitrary: qs rule: queue_states.induct)
  case (1 q)
  then show ?case by simp
next
  case (2 q r ops)
  let ?q = "snd (submit r q)"
  from "2.prems"(2) obtain rest where rest: "queue_states ?q ops = Some rest" "qs = ?q # rest"
    by (auto simp: Let_def split: option.splits)
  from submit_bound [OF "2.prems"(1)] have b: "active ?q \<le> maxConcurrent ?q"
    and m: "maxConcurrent ?q = maxConcurrent q" by simp_all
  from "2.IH" [OF refl b rest(1)] m rest(2) b show ?case
    by auto
next
  case (3 q ops)
  let ?q = "snd (on_complete q)"
  from "3.prems"(2) have pos: "0 < active q"
    by (auto split: if_splits)
  with "3.prems"(2) obtain rest where rest: "queue_states ?q ops = Some rest" "qs = ?q # rest"
    by (auto simp: Let_def split: option.splits)
  from complete_bound [OF "3.prems"(1) pos] have b: "active ?q \<le> maxConcurrent ?q"
    and m: "maxConcurrent ?q = maxConcurrent q" by simp_all
  from pos have "active q \<noteq> 0" by simp
  from "3.IH" [OF this refl b rest(1)] m rest(2) b show ?case
    by auto
qed

text \<open>
  C2. In every history of the queue the active count is at most the configured maximum
  after each operation. A completion decrements the active count and, if the backlog is
  not empty, starts its head, which leaves the count as it was; a submission starts the
  request only when the active count is below the maximum and appends it to the backlog
  otherwise.
\<close>

theorem active_never_exceeds_maximum:
  "(queue_states (createQueue m) ops = Some qs \<longrightarrow>
      (\<forall>q \<in> set qs. active q \<le> m \<and> maxConcurrent q = m))
   \<and> (0 < active q \<longrightarrow>
        on_complete q =
          (case queued q of
             [] \<Rightarrow> ([], q\<lparr>active := active q - 1\<rparr>)
           | r # rest \<Rightarrow> ([r], q\<lparr>active := active q, queued := rest\<rparr>)))
   \<and> (submit r q =
        (if active q < maxConcurrent q then ([r], q\<lparr>active := active q + 1\<rparr>)
         else ([], q\<lparr>queued := queued q @ [r]\<rparr>)))"
proof -
  have "\<forall>q \<in> set qs. active q \<le> m \<and> maxConcurrent q = m"
    if "queue_states (createQueue m) ops = Some qs"
    using queue_states_bound [of "createQueue m" ops qs] that
    by (simp add: createQueue_def)
  moreover have "on_complete q =
          (case queued q of
             [] \<Rightarrow> ([], q\<lparr>active := active q - 1\<rparr>)
           | r # rest \<Rightarrow> ([r], q\<lparr>active := active q, queued := rest\<rparr>))"
    if "0 < active q"
    using that by (simp add: on_complete_def start_def Let_def split: list.splits)
  moreover have "submit r q =
        (if active q < maxConcurrent q then ([r], q\<lparr>active := active q + 1\<rparr>)
         else ([], q\<lparr>queued := queued q @ [r]\<rparr>))"
    by (simp add: submit_def start_def)
  ultimately show ?thesis
    by blast
qed

lemma four_then_two_states:
  "map_option (map (\<lambda>q. (active q, queued q))) (queue_states (createQueue 2) four_then_two) =
     Some [(1, []), (2, []), (2, [js ''c'']), (2, [js ''c'', js ''d'']), (2, [js ''d'']), (2, [])]"
  by (simp add: four_then_two_def createQueue_def submit_def on_complete_def start_def Let_def)


theorem active_never_exceeds_maximum_witness:
  "queue_states (createQueue 2) four_then_two \<noteq> None \<and>
   map_option (map active) (queue_states (createQueue 2) four_then_two)
     = Some [1, 2, 2, 2, 2, 2] \<and>
   on_complete \<lparr>active = 2, queued = [js ''c'', js ''d''], maxConcurrent = 2\<rparr> =
     ([js ''c''], \<lparr>active = 2, queued = [js ''d''], maxConcurrent = 2\<rparr>)"
proof -
  obtain qs where qs: "queue_states (createQueue 2) four_then_two = Some qs"
    using four_then_two_states by (cases "queue_states (createQueue 2) four_then_two") auto
  from active_never_exceeds_maximum [of 2 four_then_two qs
      "\<lparr>active = 2, queued = [js ''c'', js ''d''], maxConcurrent = 2\<rparr>"] qs
  have "\<forall>q \<in> set qs. active q \<le> 2 \<and> maxConcurrent q = 2"
    and "on_complete \<lparr>active = 2, queued = [js ''c'', js ''d''], maxConcurrent = 2\<rparr> =
           ([js ''c''], \<lparr>active = 2, queued = [js ''d''], maxConcurrent = 2\<rparr>)"
    by simp_all
  moreover from four_then_two_states qs have "map active qs = [1, 2, 2, 2, 2, 2]"
    by (simp add: map_eq_Cons_conv) auto
  ultimately show ?thesis
    using qs by simp
qed


subsection \<open>Further facts\<close>

text \<open>
  The identifier of a worktree is the clock reading in base 36, which is injective: two
  creations get distinct identifiers whenever their clock readings differ.
\<close>

lemma digit_char_inj:
  assumes "a < 36" and "b < 36" and "digit_char a = digit_char b"
  shows "a = b"
proof -
  let ?ds = "js ''0123456789abcdefghijklmnopqrstuvwxyz''"
  have d: "distinct ?ds"
    by simp
  have l: "length ?ds = 36"
    by simp
  from assms(3) have "?ds ! a = ?ds ! b"
    by (simp only: digit_char_def)
  with nth_eq_iff_index_eq [OF d, of a b] assms(1,2) show ?thesis
    unfolding l by blast
qed

lemma toString36_length: "0 < length (toString36 n)"
  by (induction n rule: toString36.induct) (subst toString36.simps, simp)

lemma toString36_long: "36 \<le> n \<Longrightarrow> 2 \<le> length (toString36 n)"
  using toString36_length [of "n div 36"]
  by (subst toString36.simps) (cases "toString36 (n div 36)", simp_all)

lemma toString36_short: "n < 36 \<Longrightarrow> toString36 n = [digit_char n]"
  by (subst toString36.simps) simp

lemma toString36_inj: "toString36 m = toString36 n \<Longrightarrow> m = n"
proof (induction m arbitrary: n rule: toString36.induct)
  case (1 m)
  note eq = "1.prems"
  show ?case
  proof (cases "m < 36")
    case True
    note m = this
    then have sm: "toString36 m = [digit_char m]"
      by (rule toString36_short)
    show ?thesis
    proof (cases "n < 36")
      case True
      then have "toString36 n = [digit_char n]"
        by (rule toString36_short)
      with sm eq have "digit_char m = digit_char n"
        by (simp only: list.inject)
      with m True show ?thesis
        by (rule digit_char_inj)
    next
      case False
      then have "36 \<le> n"
        by (simp only: not_less)
      then have "2 \<le> length (toString36 n)"
        by (rule toString36_long)
      moreover from sm eq have "length (toString36 n) = 1"
        by simp
      ultimately have False
        by simp
      then show ?thesis ..
    qed
  next
    case False
    note m = this
    then have "36 \<le> m"
      by (simp only: not_less)
    then have lm: "2 \<le> length (toString36 m)"
      by (rule toString36_long)
    show ?thesis
    proof (cases "n < 36")
      case True
      then have "toString36 n = [digit_char n]"
        by (rule toString36_short)
      with eq have "length (toString36 m) = 1"
        by simp
      with lm have False
        by simp
      then show ?thesis ..
    next
      case False
      from m have em: "toString36 m = toString36 (m div 36) @ [digit_char (m mod 36)]"
        by (subst toString36.simps) (simp only: if_False)
      from False have en: "toString36 n = toString36 (n div 36) @ [digit_char (n mod 36)]"
        by (subst toString36.simps) (simp only: if_False)
      from eq have "toString36 (m div 36) @ [digit_char (m mod 36)] =
                    toString36 (n div 36) @ [digit_char (n mod 36)]"
        by (simp only: em [symmetric] en [symmetric])
      then have q: "toString36 (m div 36) = toString36 (n div 36)"
        and d: "digit_char (m mod 36) = digit_char (n mod 36)"
        by (simp_all only: append1_eq_conv)
      from "1.IH" [OF m q] have dv: "m div 36 = n div 36" .
      have "m mod 36 < 36" "n mod 36 < 36"
        by simp_all
      from digit_char_inj [OF this d] have md: "m mod 36 = n mod 36" .
      have "m = 36 * (m div 36) + m mod 36"
        by simp
      also have "\<dots> = 36 * (n div 36) + n mod 36"
        by (simp only: dv md)
      also have "\<dots> = n"
        by simp
      finally show ?thesis .
    qed
  qed
qed

end
